theory Spec2Isabelle
  imports Complex_Main "HOL-Library.Char_ord" "HOL-Library.List_Lexorder" "HOL-Library.AList"
begin

section \<open>JavaScript and Node string helpers used by server.js\<close>

text \<open>
  Strings are byte strings: a JavaScript string is read as its UTF-8 bytes, which is
  also the order S3 lists keys in.
\<close>

type_synonym bytes = "nat list"

subsection \<open>\<open>String.prototype.replace\<close> with a string pattern\<close>

text \<open>
  \<open>s.replace(pat, rep)\<close> with a string \<open>pat\<close> replaces the first occurrence only, and
  the replacement text is expanded by GetSubstitution: \<open>$$\<close> is a dollar sign,
  \<open>$&\<close> the matched text, \<open>$`\<close> the text before the match and \<open>$'\<close> the text
  after it. With a string pattern there are no captures, so every other \<open>$\<close> stays.
\<close>

fun get_substitution :: "string \<Rightarrow> string \<Rightarrow> string \<Rightarrow> string \<Rightarrow> string" where
  "get_substitution matched pre post [] = []"
| "get_substitution matched pre post [c] = [c]"
| "get_substitution matched pre post (c # d # ds) =
     (if c = CHR 0x24 then
        (if d = CHR 0x24 then CHR 0x24 # get_substitution matched pre post ds
         else if d = CHR 0x26 then matched @ get_substitution matched pre post ds
         else if d = CHR 0x60 then pre @ get_substitution matched pre post ds
         else if d = CHR 0x27 then post @ get_substitution matched pre post ds
         else c # get_substitution matched pre post (d # ds))
      else c # get_substitution matched pre post (d # ds))"

text \<open>\<open>split_first pat s\<close>: the text before and after the first occurrence of \<open>pat\<close>
  in \<open>s\<close> (\<open>indexOf\<close>), if there is one.\<close>

fun split_first :: "string \<Rightarrow> string \<Rightarrow> (string \<times> string) option" where
  "split_first pat [] = (if pat = [] then Some ([], []) else None)"
| "split_first pat (c # cs) =
     (if take (length pat) (c # cs) = pat then Some ([], drop (length pat) (c # cs))
      else (case split_first pat cs of
              None \<Rightarrow> None
            | Some (b, a) \<Rightarrow> Some (c # b, a)))"

definition js_replace :: "string \<Rightarrow> string \<Rightarrow> string \<Rightarrow> string" where
  "js_replace s pat rep =
     (case split_first pat s of
        None \<Rightarrow> s
      | Some (b, a) \<Rightarrow> b @ get_substitution pat b a rep @ a)"

definition endsWith :: "string \<Rightarrow> string \<Rightarrow> bool" where
  "endsWith s suf = (length suf \<le> length s \<and> drop (length s - length suf) s = suf)"

subsection \<open>\<open>path.extname\<close>, \<open>path.basename\<close>, \<open>path.join\<close> (POSIX)\<close>

text \<open>
  Node's \<open>posix.extname\<close> scans the path from its last character to its first. The
  loop state is kept as Node keeps it; indices are integers because \<open>-1\<close> means
  "not seen yet".
\<close>

record ext_state =
  startDot :: int
  startPart :: int
  end_ix :: int
  matchedSlash :: bool
  preDotState :: int
  stopped :: bool

definition ext_step :: "string \<Rightarrow> ext_state \<Rightarrow> nat \<Rightarrow> ext_state" where
  "ext_step p st i =
     (if stopped st then st
      else if p ! i = CHR ''/'' then
        (if \<not> matchedSlash st then st\<lparr>startPart := int i + 1, stopped := True\<rparr> else st)
      else
        (let st1 = (if end_ix st = -1
                    then st\<lparr>matchedSlash := False, end_ix := int i + 1\<rparr> else st)
         in if p ! i = CHR ''.'' then
              (if startDot st1 = -1 then st1\<lparr>startDot := int i\<rparr>
               else if preDotState st1 \<noteq> 1 then st1\<lparr>preDotState := 1\<rparr>
               else st1)
            else if startDot st1 \<noteq> -1 then st1\<lparr>preDotState := -1\<rparr>
            else st1))"

definition ext_scan :: "string \<Rightarrow> ext_state" where
  "ext_scan p =
     foldl (ext_step p)
       \<lparr>startDot = -1, startPart = 0, end_ix = -1, matchedSlash = True,
        preDotState = 0, stopped = False\<rparr>
       (rev [0..<length p])"

definition extname :: "string \<Rightarrow> string" where
  "extname p =
     (let st = ext_scan p in
      if startDot st = -1 \<or> end_ix st = -1 \<or> preDotState st = 0 \<or>
         (preDotState st = 1 \<and> startDot st = end_ix st - 1 \<and> startDot st = startPart st + 1)
      then []
      else drop (nat (startDot st)) (take (nat (end_ix st)) p))"

text \<open>\<open>posix.basename\<close> without a suffix argument: the last portion of the path,
  trailing slashes ignored.\<close>

record base_state =
  b_start :: nat
  b_end :: int
  b_matchedSlash :: bool
  b_stopped :: bool

definition base_step :: "string \<Rightarrow> base_state \<Rightarrow> nat \<Rightarrow> base_state" where
  "base_step p st i =
     (if b_stopped st then st
      else if p ! i = CHR ''/'' then
        (if \<not> b_matchedSlash st then st\<lparr>b_start := i + 1, b_stopped := True\<rparr> else st)
      else if b_end st = -1 then st\<lparr>b_matchedSlash := False, b_end := int i + 1\<rparr>
      else st)"

definition basename :: "string \<Rightarrow> string" where
  "basename p =
     (let st = foldl (base_step p)
                 \<lparr>b_start = 0, b_end = -1, b_matchedSlash = True, b_stopped = False\<rparr>
                 (rev [0..<length p])
      in if b_end st = -1 then [] else drop (b_start st) (take (nat (b_end st)) p))"

text \<open>\<open>posix.join(a, b)\<close> puts a slash between its non-empty arguments and
  normalises: empty and \<open>.\<close> segments go, \<open>..\<close> removes the segment before it (and
  stays when a relative path has nothing left to remove), a trailing slash is kept.\<close>

fun split_slash :: "string \<Rightarrow> string list" where
  "split_slash [] = [[]]"
| "split_slash (c # cs) =
     (if c = CHR ''/'' then [] # split_slash cs
      else (case split_slash cs of
              [] \<Rightarrow> [[c]]
            | s # ss \<Rightarrow> (c # s) # ss))"

fun normalizeString :: "bool \<Rightarrow> string list \<Rightarrow> string list \<Rightarrow> string list" where
  "normalizeString allowAboveRoot acc [] = rev acc"
| "normalizeString allowAboveRoot acc (s # ss) =
     (if s = [] \<or> s = ''.'' then normalizeString allowAboveRoot acc ss
      else if s = ''..'' then
        (case acc of
           [] \<Rightarrow> normalizeString allowAboveRoot (if allowAboveRoot then [''..''] else []) ss
         | a # as \<Rightarrow>
             if a = ''..'' then normalizeString allowAboveRoot (''..'' # a # as) ss
             else normalizeString allowAboveRoot as ss)
      else normalizeString allowAboveRoot (s # acc) ss)"

fun join_slash :: "string list \<Rightarrow> string" where
  "join_slash [] = []"
| "join_slash [s] = s"
| "join_slash (s # t # ss) = s @ ''/'' @ join_slash (t # ss)"

definition normalize :: "string \<Rightarrow> string" where
  "normalize p =
     (if p = [] then ''.''
      else
        (let isAbsolute = (hd p = CHR ''/'');
             trailingSeparator = (last p = CHR ''/'');
             q = join_slash (normalizeString (\<not> isAbsolute) [] (split_slash p))
         in if q = [] then (if isAbsolute then ''/'' else if trailingSeparator then ''./'' else ''.'')
            else (if isAbsolute then ''/'' else []) @ q @ (if trailingSeparator then ''/'' else [])))"

definition path_join :: "string \<Rightarrow> string \<Rightarrow> string" where
  "path_join a b =
     (if a = [] \<and> b = [] then ''.''
      else if a = [] then normalize b
      else if b = [] then normalize a
      else normalize (a @ ''/'' @ b))"

subsection \<open>\<open>encodeURIComponent\<close> and number printing\<close>

definition uri_unreserved :: "char \<Rightarrow> bool" where
  "uri_unreserved c =
     ((CHR ''a'' \<le> c \<and> c \<le> CHR ''z'') \<or> (CHR ''A'' \<le> c \<and> c \<le> CHR ''Z'') \<or>
      (CHR ''0'' \<le> c \<and> c \<le> CHR ''9'') \<or> c \<in> set ''-_.!~*'' \<or>
      c = CHR 0x27 \<or> c = CHR ''('' \<or> c = CHR '')'')"

definition hex_digit :: "nat \<Rightarrow> char" where
  "hex_digit n = (''0123456789ABCDEF'') ! (n mod 16)"

definition encodeURIComponent :: "string \<Rightarrow> string" where
  "encodeURIComponent s =
     concat (map (\<lambda>c. if uri_unreserved c then [c]
                      else [CHR ''%'', hex_digit (of_char c div 16), hex_digit (of_char c)]) s)"

text \<open>Decimal printing of a non-negative integer, as a template literal prints
  \<open>Date.now()\<close> or a byte count.\<close>

fun digits10 :: "nat \<Rightarrow> string" where
  "digits10 n =
     (if n < 10 then [''0123456789'' ! n]
      else digits10 (n div 10) @ [''0123456789'' ! (n mod 10)])"

declare digits10.simps [simp del]

section \<open>Configuration, requests, responses\<close>

text \<open>The constants server.js reads from the environment at start-up. \<open>STORAGE\<close> is
  the lower-cased string; every handler takes the S3 branch when it is \<open>s3\<close> and the
  local branch otherwise. \<open>BASE_URL\<close> is \<open>None\<close> for \<open>null\<close>; \<open>ADMIN_KEY\<close> is
  the empty string when the variable is not set.\<close>

record config =
  STORAGE :: string
  BASE_URL :: "string option"
  dirname :: string
  MAX_FILE_SIZE :: nat
  ADMIN_KEY :: string
  AWS_BUCKET :: string
  AWS_REGION :: string

definition UPLOAD_DIR :: "config \<Rightarrow> string" where
  "UPLOAD_DIR cfg = path_join (dirname cfg) ''uploads''"

definition THUMB_DIR :: "config \<Rightarrow> string" where
  "THUMB_DIR cfg = path_join (UPLOAD_DIR cfg) ''thumbs''"

definition ALLOWED :: "string set" where
  "ALLOWED = {''image/jpeg'', ''image/png'', ''image/webp'', ''image/gif'', ''image/avif''}"

text \<open>The file multer's memory storage hands to the handler; \<open>req.file.size\<close> is the
  length of the buffer.\<close>

record upload_file =
  buffer :: bytes
  mimetype :: string

text \<open>A value of \<open>req.query.key\<close>: absent, a string, or what the query parser builds
  from repeated or bracketed parameters, which is never \<open>===\<close> to a string.\<close>

datatype qval = QUndefined | QString string | QArray "string list" | QObject

record request =
  req_file :: "upload_file option"
  x_forwarded_proto :: "string option"
  x_forwarded_host :: "string option"
  protocol :: string
  host :: string
  param_file :: string
  query_key :: qval

text \<open>What one upload reads from the clock and the random generator:
  \<open>Date.now()\<close>, \<open>Math.random().toString(36)\<close> and \<open>new Date()\<close> (as a time value).\<close>

record env =
  Date_now :: nat
  random_str :: string
  new_Date :: nat

text \<open>A response is the JSON body of a 200, or \<open>res.status(c).json({error: m})\<close>, or
  the error multer passes to \<open>next\<close> instead of running the handler.\<close>

datatype 'a response = Json 'a | Fail nat string | MulterError string

record upload_meta =
  u_file :: string
  u_url :: string
  u_thumbnail :: string
  u_mime :: string
  u_size :: nat
  u_date :: nat

record list_item =
  l_file :: string
  l_url :: string
  l_thumbnail :: string
  l_size :: nat
  l_date :: nat

definition strip_trailing_slash :: "string \<Rightarrow> string" where
  "strip_trailing_slash s = (if s \<noteq> [] \<and> last s = CHR ''/'' then butlast s else s)"

definition header_or :: "string option \<Rightarrow> string \<Rightarrow> string" where
  "header_or h d = (case h of None \<Rightarrow> d | Some v \<Rightarrow> if v = [] then d else v)"

definition getBaseUrl :: "config \<Rightarrow> request \<Rightarrow> string" where
  "getBaseUrl cfg req =
     (case BASE_URL cfg of
        Some b \<Rightarrow> strip_trailing_slash b
      | None \<Rightarrow>
          header_or (x_forwarded_proto req) (protocol req) @ ''://'' @
          header_or (x_forwarded_host req) (host req))"

section \<open>The libraries: file-type, mime-types, sharp\<close>

text \<open>
  \<open>fileType.fromBuffer\<close> and sharp's decoder and encoder are not part of the
  repository. They are parameters of the model: \<open>fromBuffer\<close> gives the MIME type of
  the signature it recognises, \<open>decode\<close> the image sharp reads (\<open>None\<close> when sharp
  throws) and \<open>encode\<close> the bytes of \<open>toBuffer()\<close>.
\<close>

record image =
  fmt :: string
  width :: nat
  height :: nat

record libs =
  fromBuffer :: "bytes \<Rightarrow> string option"
  decode :: "bytes \<Rightarrow> image option"
  encode :: "image \<Rightarrow> bytes"

text \<open>\<open>mime.extension\<close>: the first extension mime-db lists for the type. The handler
  calls it on allowed types only, so only their rows are copied.\<close>

definition mime_extension :: "string \<Rightarrow> string option" where
  "mime_extension t =
     (if t = ''image/jpeg'' then Some ''jpeg''
      else if t = ''image/png'' then Some ''png''
      else if t = ''image/webp'' then Some ''webp''
      else if t = ''image/gif'' then Some ''gif''
      else if t = ''image/avif'' then Some ''avif''
      else None)"

text \<open>
  \<open>sharp(buf).resize({ width: 1024, height: 1024, fit: 'inside' })\<close>. With both
  target sides given sharp takes the larger of the two shrink factors for
  \<open>fit: 'inside'\<close>, never shrinks a side below one pixel, and rounds each side to the
  nearest pixel. \<open>withoutEnlargement\<close> is false unless the caller sets it, and the call
  in server.js does not, so a shrink factor below one enlarges. The factors are
  rationals here, doubles in sharp. No output format is chosen, so \<open>toBuffer()\<close>
  keeps the input's.
\<close>

definition resize_inside :: "nat \<Rightarrow> nat \<Rightarrow> image \<Rightarrow> image" where
  "resize_inside tw th img =
     (let hshrink0 = (of_nat (width img) :: rat) / of_nat tw;
          vshrink0 = (of_nat (height img) :: rat) / of_nat th;
          shrink = max hshrink0 vshrink0;
          hshrink = min shrink (of_nat (width img));
          vshrink = min shrink (of_nat (height img))
      in img\<lparr>width := nat \<lfloor>of_nat (width img) / hshrink + 1 / 2\<rfloor>,
             height := nat \<lfloor>of_nat (height img) / vshrink + 1 / 2\<rfloor>\<rparr>)"

definition sharp_thumbnail :: "libs \<Rightarrow> bytes \<Rightarrow> bytes option" where
  "sharp_thumbnail L buf =
     (case decode L buf of
        None \<Rightarrow> None
      | Some img \<Rightarrow>
          if width img = 0 \<or> height img = 0 then None
          else Some (encode L (resize_inside 1024 1024 img)))"

section \<open>The storage backends\<close>

text \<open>
  One world holds both stores: the S3 bucket and the local file system, each an
  association list (keys to objects, absolute paths to nodes). \<open>calls\<close> records every
  put, delete and list call the server makes, in order. \<open>fault\<close> says which calls the
  backend fails (network, permissions, a full disk): such a call is recorded, changes
  nothing, and its promise rejects. \<open>clock\<close> is the time the backend stamps on a write.
\<close>

record s3_object =
  Body :: bytes
  ContentType :: string
  LastModified :: nat

datatype node = File (content: bytes) (mtime: nat) | Dir

datatype call =
    PutObject string | DeleteObject string | ListObjectsV2 string
  | WriteFile string | Unlink string | Readdir string

record world =
  bucket :: "(string \<times> s3_object) list"
  fs :: "(string \<times> node) list"
  calls :: "call list"
  fault :: "call \<Rightarrow> bool"
  clock :: nat

datatype 'a outcome = Resolved 'a | Rejected

definition logged :: "call \<Rightarrow> world \<Rightarrow> world" where
  "logged c w = w\<lparr>calls := calls w @ [c]\<rparr>"

subsection \<open>S3\<close>

definition putObject :: "string \<Rightarrow> bytes \<Rightarrow> string \<Rightarrow> world \<Rightarrow> unit outcome \<times> world" where
  "putObject key body ctype w =
     (if fault w (PutObject key) then (Rejected, logged (PutObject key) w)
      else (Resolved (),
            logged (PutObject key)
              (w\<lparr>bucket := AList.update key
                   \<lparr>Body = body, ContentType = ctype, LastModified = clock w\<rparr> (bucket w)\<rparr>)))"

text \<open>Deleting a key that is not there succeeds.\<close>

definition deleteObject :: "string \<Rightarrow> world \<Rightarrow> unit outcome \<times> world" where
  "deleteObject key w =
     (if fault w (DeleteObject key) then (Rejected, logged (DeleteObject key) w)
      else (Resolved (), logged (DeleteObject key) (w\<lparr>bucket := AList.delete key (bucket w)\<rparr>)))"

text \<open>One page of \<open>listObjectsV2\<close>: the keys with the prefix, in the byte order of
  the keys, at most 1000 of them.\<close>

definition listObjectsV2 ::
  "string \<Rightarrow> world \<Rightarrow> (string \<times> s3_object) list outcome \<times> world" where
  "listObjectsV2 prefix w =
     (if fault w (ListObjectsV2 prefix) then (Rejected, logged (ListObjectsV2 prefix) w)
      else (Resolved (take 1000 (sort_key fst
                        (filter (\<lambda>ko. take (length prefix) (fst ko) = prefix) (bucket w)))),
            logged (ListObjectsV2 prefix) w))"

definition s3_url :: "config \<Rightarrow> string" where
  "s3_url cfg = ''https://'' @ AWS_BUCKET cfg @ ''.s3.'' @ AWS_REGION cfg @ ''.amazonaws.com/''"

definition uploadBufferToS3 ::
  "config \<Rightarrow> bytes \<Rightarrow> string \<Rightarrow> string \<Rightarrow> world \<Rightarrow> string outcome \<times> world" where
  "uploadBufferToS3 cfg buf key mimeType w =
     (case putObject key buf mimeType w of
        (Rejected, w1) \<Rightarrow> (Rejected, w1)
      | (Resolved u, w1) \<Rightarrow> (Resolved (s3_url cfg @ encodeURIComponent key), w1))"

subsection \<open>The local file system\<close>

text \<open>A path with a trailing slash names a directory or nothing.\<close>

definition fs_lookup :: "(string \<times> node) list \<Rightarrow> string \<Rightarrow> node option" where
  "fs_lookup f p =
     (if p \<noteq> [] \<and> p \<noteq> ''/'' \<and> last p = CHR ''/'' then
        (case map_of f (butlast p) of Some Dir \<Rightarrow> Some Dir | _ \<Rightarrow> None)
      else map_of f p)"

definition existsSync :: "world \<Rightarrow> string \<Rightarrow> bool" where
  "existsSync w p = (fs_lookup (fs w) p \<noteq> None)"

definition parent_dir :: "string \<Rightarrow> string" where
  "parent_dir p =
     (if CHR ''/'' \<notin> set p then ''.''
      else (let d = rev (tl (dropWhile (\<lambda>c. c \<noteq> CHR ''/'') (rev p)))
            in if d = [] then ''/'' else d))"

text \<open>\<open>unlink\<close> removes a file; it fails on a directory and on a missing path.\<close>

definition unlink :: "string \<Rightarrow> world \<Rightarrow> unit outcome \<times> world" where
  "unlink p w =
     (if fault w (Unlink p) then (Rejected, logged (Unlink p) w)
      else (case fs_lookup (fs w) p of
              Some (File c t) \<Rightarrow>
                (Resolved (), logged (Unlink p) (w\<lparr>fs := AList.delete p (fs w)\<rparr>))
            | _ \<Rightarrow> (Rejected, logged (Unlink p) w)))"

text \<open>\<open>writeFile\<close> creates or overwrites a file in an existing directory.\<close>

definition writeFile :: "string \<Rightarrow> bytes \<Rightarrow> world \<Rightarrow> unit outcome \<times> world" where
  "writeFile p dat w =
     (if fault w (WriteFile p) then (Rejected, logged (WriteFile p) w)
      else if fs_lookup (fs w) p = Some Dir \<or> fs_lookup (fs w) (parent_dir p) \<noteq> Some Dir
             \<or> (p \<noteq> [] \<and> last p = CHR ''/'')
      then (Rejected, logged (WriteFile p) w)
      else (Resolved (),
            logged (WriteFile p) (w\<lparr>fs := AList.update p (File dat (clock w)) (fs w)\<rparr>)))"

text \<open>\<open>readdir\<close>: the names in a directory, in the order the file system keeps them.\<close>

definition readdir :: "string \<Rightarrow> world \<Rightarrow> string list outcome \<times> world" where
  "readdir d w =
     (if fault w (Readdir d) then (Rejected, logged (Readdir d) w)
      else if fs_lookup (fs w) d \<noteq> Some Dir then (Rejected, logged (Readdir d) w)
      else (let d0 = (if d = ''/'' then d else strip_trailing_slash d)
            in (Resolved (map (\<lambda>pn. drop (if d0 = ''/'' then 1 else length d0 + 1) (fst pn))
                            (filter (\<lambda>pn. fst pn \<noteq> d0 \<and> parent_dir (fst pn) = d0) (fs w))),
                logged (Readdir d) w)))"

definition node_size :: "node \<Rightarrow> nat" where
  "node_size n = (case n of File c t \<Rightarrow> length c | Dir \<Rightarrow> 0)"

definition node_mtime :: "node \<Rightarrow> nat" where
  "node_mtime n = (case n of File c t \<Rightarrow> t | Dir \<Rightarrow> 0)"

section \<open>The handlers\<close>

subsection \<open>Thumbnail names\<close>

text \<open>The three places that pair a file with its thumbnail. Upload replaces
  \<open>.ext\<close> with the extension it has just chosen; Delete and the local List take the
  extension from \<open>path.extname\<close>; the S3 List replaces the first dot.\<close>

definition upload_thumbName :: "string \<Rightarrow> string \<Rightarrow> string" where
  "upload_thumbName filename ext = js_replace filename (''.'' @ ext) (''_thumb.'' @ ext)"

definition ext_thumbName :: "string \<Rightarrow> string" where
  "ext_thumbName f =
     (let ext = drop 1 (extname f) in js_replace f (''.'' @ ext) (''_thumb.'' @ ext))"

definition s3_list_thumbName :: "string \<Rightarrow> string" where
  "s3_list_thumbName file = js_replace file ''.'' ''_thumb.''"

subsection \<open>POST /api/upload\<close>

definition detect :: "libs \<Rightarrow> upload_file \<Rightarrow> string" where
  "detect L f = (case fromBuffer L (buffer f) of Some m \<Rightarrow> m | None \<Rightarrow> mimetype f)"

definition gen_ext :: "string \<Rightarrow> string" where
  "gen_ext detected = (case mime_extension detected of Some e \<Rightarrow> e | None \<Rightarrow> ''png'')"

definition gen_filename :: "env \<Rightarrow> string \<Rightarrow> string" where
  "gen_filename e ext = digits10 (Date_now e) @ ''-'' @ drop 2 (random_str e) @ ''.'' @ ext"

abbreviation server_error :: "'a response" where
  "server_error \<equiv> Fail 500 ''Server error''"

definition store_s3 ::
  "config \<Rightarrow> env \<Rightarrow> upload_file \<Rightarrow> string \<Rightarrow> string \<Rightarrow> string \<Rightarrow> bytes \<Rightarrow> world
     \<Rightarrow> upload_meta response \<times> world" where
  "store_s3 cfg e f detected filename thumbName thumbBuffer w =
     (case uploadBufferToS3 cfg (buffer f) (''images/'' @ filename) detected w of
        (Rejected, w1) \<Rightarrow> (server_error, w1)
      | (Resolved fileUrl, w1) \<Rightarrow>
          (case uploadBufferToS3 cfg thumbBuffer (''images/'' @ thumbName) detected w1 of
             (Rejected, w2) \<Rightarrow> (server_error, w2)
           | (Resolved thumbUrl, w2) \<Rightarrow>
               (Json \<lparr>u_file = filename, u_url = fileUrl, u_thumbnail = thumbUrl,
                      u_mime = detected, u_size = length (buffer f), u_date = new_Date e\<rparr>,
                w2)))"

definition store_local ::
  "config \<Rightarrow> env \<Rightarrow> request \<Rightarrow> upload_file \<Rightarrow> string \<Rightarrow> string \<Rightarrow> string \<Rightarrow> bytes \<Rightarrow> world
     \<Rightarrow> upload_meta response \<times> world" where
  "store_local cfg e req f detected filename thumbName thumbBuffer w =
     (let outPath = path_join (UPLOAD_DIR cfg) filename;
          thumbPath = path_join (THUMB_DIR cfg) thumbName
      in case writeFile outPath (buffer f) w of
           (Rejected, w1) \<Rightarrow> (server_error, w1)
         | (Resolved u, w1) \<Rightarrow>
             (case writeFile thumbPath thumbBuffer w1 of
                (Rejected, w2) \<Rightarrow> (server_error, w2)
              | (Resolved u', w2) \<Rightarrow>
                  (let base = getBaseUrl cfg req
                   in (Json \<lparr>u_file = filename,
                             u_url = base @ ''/uploads/'' @ encodeURIComponent filename,
                             u_thumbnail =
                               base @ ''/uploads/thumbs/'' @ encodeURIComponent thumbName,
                             u_mime = detected, u_size = length (buffer f),
                             u_date = new_Date e\<rparr>,
                       w2))))"

definition upload_handler ::
  "config \<Rightarrow> libs \<Rightarrow> env \<Rightarrow> request \<Rightarrow> world \<Rightarrow> upload_meta response \<times> world" where
  "upload_handler cfg L e req w =
     (case req_file req of
        None \<Rightarrow> (Fail 400 ''No file uploaded'', w)
      | Some f \<Rightarrow>
          (let detected = detect L f in
           if detected \<notin> ALLOWED then (Fail 400 ''Unsupported file type'', w)
           else
             (let ext = gen_ext detected;
                  filename = gen_filename e ext;
                  thumbName = upload_thumbName filename ext
              in case sharp_thumbnail L (buffer f) of
                   None \<Rightarrow> (server_error, w)
                 | Some thumbBuffer \<Rightarrow>
                     if STORAGE cfg = ''s3''
                     then store_s3 cfg e f detected filename thumbName thumbBuffer w
                     else store_local cfg e req f detected filename thumbName thumbBuffer w)))"

text \<open>\<open>upload.single('image')\<close> runs first, with \<open>limits: { fileSize: MAX_FILE_SIZE }\<close>:
  a file longer than the limit makes multer pass its \<open>LIMIT_FILE_SIZE\<close> error
  ("File too large") to \<open>next\<close>, and the handler is not run.\<close>

definition post_upload ::
  "config \<Rightarrow> libs \<Rightarrow> env \<Rightarrow> request \<Rightarrow> world \<Rightarrow> upload_meta response \<times> world" where
  "post_upload cfg L e req w =
     (case req_file req of
        None \<Rightarrow> upload_handler cfg L e req w
      | Some f \<Rightarrow>
          if length (buffer f) > MAX_FILE_SIZE cfg then (MulterError ''LIMIT_FILE_SIZE'', w)
          else upload_handler cfg L e req w)"

subsection \<open>GET /api/list\<close>

definition s3_item :: "config \<Rightarrow> string \<times> s3_object \<Rightarrow> list_item" where
  "s3_item cfg o' =
     (let key = fst o';
          file = basename key;
          thumb = s3_list_thumbName file
      in \<lparr>l_file = file,
          l_url = s3_url cfg @ encodeURIComponent key,
          l_thumbnail = s3_url cfg @ ''images/'' @ encodeURIComponent thumb,
          l_size = length (Body (snd o')),
          l_date = LastModified (snd o')\<rparr>)"

definition list_s3 :: "config \<Rightarrow> world \<Rightarrow> list_item list response \<times> world" where
  "list_s3 cfg w =
     (case listObjectsV2 ''images/'' w of
        (Rejected, w1) \<Rightarrow> (server_error, w1)
      | (Resolved contents, w1) \<Rightarrow>
          (Json (rev (map (s3_item cfg)
                       (filter (\<lambda>o'. \<not> endsWith (fst o') ''/'') contents))),
           w1))"

definition local_item :: "config \<Rightarrow> request \<Rightarrow> world \<Rightarrow> string \<Rightarrow> list_item" where
  "local_item cfg req w f =
     (let stat = the (fs_lookup (fs w) (path_join (UPLOAD_DIR cfg) f));
          thumb = ext_thumbName f
      in \<lparr>l_file = f,
          l_url = getBaseUrl cfg req @ ''/uploads/'' @ f,
          l_thumbnail = getBaseUrl cfg req @ ''/uploads/thumbs/'' @ thumb,
          l_size = node_size stat,
          l_date = node_mtime stat\<rparr>)"

text \<open>\<open>lstatSync\<close> and \<open>stat\<close> throw on a missing path, which ends the request in
  the \<open>catch\<close>; \<open>local_item\<close> is applied only to paths that are there. The sort is
  stable and descending by date.\<close>

definition list_local :: "config \<Rightarrow> request \<Rightarrow> world \<Rightarrow> list_item list response \<times> world" where
  "list_local cfg req w =
     (case readdir (UPLOAD_DIR cfg) w of
        (Rejected, w1) \<Rightarrow> (server_error, w1)
      | (Resolved files, w1) \<Rightarrow>
          (let named = filter (\<lambda>f. f \<noteq> ''thumbs'') files in
           if list_ex (\<lambda>f. fs_lookup (fs w1) (path_join (UPLOAD_DIR cfg) f) = None) named
           then (server_error, w1)
           else
             (let images = filter (\<lambda>f. fs_lookup (fs w1) (path_join (UPLOAD_DIR cfg) f)
                                          \<noteq> Some Dir) named;
                  items = map (local_item cfg req w1) images
              in (Json (sort_key (\<lambda>i. - int (l_date i)) items), w1))))"

definition list_handler :: "config \<Rightarrow> request \<Rightarrow> world \<Rightarrow> list_item list response \<times> world" where
  "list_handler cfg req w =
     (if STORAGE cfg = ''s3'' then list_s3 cfg w else list_local cfg req w)"

subsection \<open>DELETE /api/delete/:file\<close>

definition delete_s3 :: "string \<Rightarrow> world \<Rightarrow> bool response \<times> world" where
  "delete_s3 file w =
     (case deleteObject (''images/'' @ file) w of
        (Rejected, w1) \<Rightarrow> (server_error, w1)
      | (Resolved u, w1) \<Rightarrow>
          (case deleteObject (''images/'' @ ext_thumbName file) w1 of
             (Rejected, w2) \<Rightarrow> (server_error, w2)
           | (Resolved u', w2) \<Rightarrow> (Json True, w2)))"

definition unlink_if_exists :: "string \<Rightarrow> world \<Rightarrow> unit outcome \<times> world" where
  "unlink_if_exists p w = (if existsSync w p then unlink p w else (Resolved (), w))"

definition delete_local :: "config \<Rightarrow> string \<Rightarrow> world \<Rightarrow> bool response \<times> world" where
  "delete_local cfg file w =
     (let fpath = path_join (UPLOAD_DIR cfg) file in
      case unlink_if_exists fpath w of
        (Rejected, w1) \<Rightarrow> (server_error, w1)
      | (Resolved u, w1) \<Rightarrow>
          (let thumb = path_join (THUMB_DIR cfg) (ext_thumbName file) in
           case unlink_if_exists thumb w1 of
             (Rejected, w2) \<Rightarrow> (server_error, w2)
           | (Resolved u', w2) \<Rightarrow> (Json True, w2)))"

definition delete_files :: "config \<Rightarrow> string \<Rightarrow> world \<Rightarrow> bool response \<times> world" where
  "delete_files cfg file w =
     (if STORAGE cfg = ''s3'' then delete_s3 file w else delete_local cfg file w)"

text \<open>\<open>const key = req.query.key || ''\<close>: an absent key and the empty string both give
  the empty string.\<close>

definition supplied_key :: "request \<Rightarrow> qval" where
  "supplied_key req = (case query_key req of QUndefined \<Rightarrow> QString [] | v \<Rightarrow> v)"

definition forbidden :: "config \<Rightarrow> request \<Rightarrow> bool" where
  "forbidden cfg req = (ADMIN_KEY cfg \<noteq> [] \<and> supplied_key req \<noteq> QString (ADMIN_KEY cfg))"

definition delete_handler :: "config \<Rightarrow> request \<Rightarrow> world \<Rightarrow> bool response \<times> world" where
  "delete_handler cfg req w =
     (if forbidden cfg req then (Fail 403 ''forbidden'', w)
      else delete_files cfg (param_file req) w)"

section \<open>What a store holds\<close>


text \<open>Whether the backend holds the original named \<open>file\<close>, and whether it holds
  the thumbnail Delete pairs with it.\<close>

definition original_present :: "config \<Rightarrow> world \<Rightarrow> string \<Rightarrow> bool" where
  "original_present cfg w file =
     (if STORAGE cfg = ''s3'' then map_of (bucket w) (''images/'' @ file) \<noteq> None
      else existsSync w (path_join (UPLOAD_DIR cfg) file))"

definition thumbnail_present :: "config \<Rightarrow> world \<Rightarrow> string \<Rightarrow> bool" where
  "thumbnail_present cfg w file =
     (if STORAGE cfg = ''s3'' then map_of (bucket w) (''images/'' @ ext_thumbName file) \<noteq> None
      else existsSync w (path_join (THUMB_DIR cfg) (ext_thumbName file)))"

text \<open>The backend does not fail the two delete calls for \<open>file\<close>, and locally
  neither of the two paths is a directory.\<close>

definition deletable :: "config \<Rightarrow> world \<Rightarrow> string \<Rightarrow> bool" where
  "deletable cfg w file =
     (if STORAGE cfg = ''s3''
      then \<not> fault w (DeleteObject (''images/'' @ file)) \<and>
           \<not> fault w (DeleteObject (''images/'' @ ext_thumbName file))
      else \<not> fault w (Unlink (path_join (UPLOAD_DIR cfg) file)) \<and>
           \<not> fault w (Unlink (path_join (THUMB_DIR cfg) (ext_thumbName file))) \<and>
           fs_lookup (fs w) (path_join (UPLOAD_DIR cfg) file) \<noteq> Some Dir \<and>
           fs_lookup (fs w) (path_join (THUMB_DIR cfg) (ext_thumbName file)) \<noteq> Some Dir)"

section \<open>Example inputs\<close>

text \<open>Stand-ins for the libraries in the examples: a sniffer that knows the JPEG, PNG
  and GIF signatures, and a toy codec whose image data ends with the width and the
  height.\<close>

definition sniff_signature :: "bytes \<Rightarrow> string option" where
  "sniff_signature b =
     (if take 3 b = [0xFF, 0xD8, 0xFF] then Some ''image/jpeg''
      else if take 8 b = [0x89, 0x50, 0x4E, 0x47, 0x0D, 0x0A, 0x1A, 0x0A] then Some ''image/png''
      else if take 3 b = [0x47, 0x49, 0x46] then Some ''image/gif''
      else None)"

definition toy_decode :: "bytes \<Rightarrow> image option" where
  "toy_decode b =
     (case sniff_signature b of
        None \<Rightarrow> None
      | Some m \<Rightarrow>
          if length b < 2 then None
          else Some \<lparr>fmt = m, width = last (butlast b), height = last b\<rparr>)"

definition toy_encode :: "image \<Rightarrow> bytes" where
  "toy_encode img = [width img, height img]"

definition demo_libs :: libs where
  "demo_libs = \<lparr>fromBuffer = sniff_signature, decode = toy_decode, encode = toy_encode\<rparr>"

definition demo_local :: config where
  "demo_local =
     \<lparr>STORAGE = ''local'', BASE_URL = None, dirname = ''/app'', MAX_FILE_SIZE = 5242880,
      ADMIN_KEY = [], AWS_BUCKET = ''pics'', AWS_REGION = ''eu-west-1''\<rparr>"

definition demo_s3 :: config where
  "demo_s3 = demo_local\<lparr>STORAGE := ''s3''\<rparr>"

definition demo_env :: env where
  "demo_env = \<lparr>Date_now = 1700000000000, random_str = ''0.k3x9'', new_Date = 1700000000001\<rparr>"

text \<open>A GIF of 800 by 600 sent as \<open>image/png\<close>.\<close>

definition gif_file :: upload_file where
  "gif_file = \<lparr>buffer = [0x47, 0x49, 0x46, 0x38, 0x39, 0x61, 800, 600], mimetype = ''image/png''\<rparr>"

definition demo_req :: request where
  "demo_req =
     \<lparr>req_file = Some gif_file, x_forwarded_proto = None, x_forwarded_host = None,
      protocol = ''http'', host = ''localhost:3000'', param_file = [],
      query_key = QUndefined\<rparr>"

text \<open>The stores right after start-up: an empty bucket, the two upload directories.\<close>

definition world0 :: world where
  "world0 =
     \<lparr>bucket = [], fs = [(''/app/uploads'', Dir), (''/app/uploads/thumbs'', Dir)],
      calls = [], fault = (\<lambda>c. False), clock = 1700000000002\<rparr>"

text \<open>A Windows executable sent as a plain byte stream.\<close>

definition exe_file :: upload_file where
  "exe_file = \<lparr>buffer = [0x4D, 0x5A, 0x90, 0x00], mimetype = ''application/octet-stream''\<rparr>"

text \<open>A backend that fails the put of the example's thumbnail, and a file system whose
  thumbnail directory is missing.\<close>

definition thumb_fault_world :: world where
  "thumb_fault_world =
     world0\<lparr>fault := (\<lambda>c. c = PutObject ''images/1700000000000-k3x9_thumb.gif'')\<rparr>"

definition no_thumbs_world :: world where
  "no_thumbs_world = world0\<lparr>fs := [(''/app/uploads'', Dir)]\<rparr>"

text \<open>The answer to the example upload on S3, and the world after it.\<close>

definition demo_meta :: upload_meta where
  "demo_meta =
     \<lparr>u_file = ''1700000000000-k3x9.gif'',
      u_url = ''https://pics.s3.eu-west-1.amazonaws.com/images%2F1700000000000-k3x9.gif'',
      u_thumbnail =
        ''https://pics.s3.eu-west-1.amazonaws.com/images%2F1700000000000-k3x9_thumb.gif'',
      u_mime = ''image/gif'', u_size = 8, u_date = 1700000000001\<rparr>"

definition after_upload_s3 :: world where
  "after_upload_s3 =
     world0\<lparr>bucket :=
               [(''images/1700000000000-k3x9.gif'',
                 \<lparr>Body = buffer gif_file, ContentType = ''image/gif'',
                  LastModified = 1700000000002\<rparr>),
                (''images/1700000000000-k3x9_thumb.gif'',
                 \<lparr>Body = [1024, 768], ContentType = ''image/gif'',
                  LastModified = 1700000000002\<rparr>)],
             calls := [PutObject ''images/1700000000000-k3x9.gif'',
                       PutObject ''images/1700000000000-k3x9_thumb.gif'']\<rparr>"

text \<open>A request to delete the example asset; a local store that holds the original of
  the example but no thumbnail; a configuration with the admin secret \<open>abc\<close>.\<close>

definition del_req :: request where
  "del_req = demo_req\<lparr>req_file := None, param_file := ''1700000000000-k3x9.gif''\<rparr>"

definition orphan_local :: world where
  "orphan_local =
     world0\<lparr>fs := [(''/app/uploads'', Dir), (''/app/uploads/thumbs'', Dir),
                   (''/app/uploads/1700000000000-k3x9.gif'',
                    File (buffer gif_file) 1700000000002)]\<rparr>"

definition demo_s3_abc :: config where
  "demo_s3_abc = demo_s3\<lparr>ADMIN_KEY := ''abc''\<rparr>"

text \<open>A bucket holding one object whose name has two dots, and a bucket holding two
  uploads of which the one named earlier was stored later.\<close>

definition dotted_bucket :: world where
  "dotted_bucket =
     world0\<lparr>bucket := [(''images/a.b.png'',
                         \<lparr>Body = [1, 2, 3], ContentType = ''image/png'',
                          LastModified = 1700000000002\<rparr>)]\<rparr>"

definition overlap_bucket :: world where
  "overlap_bucket =
     world0\<lparr>bucket := [(''images/1700000000500-ab12.gif'',
                         \<lparr>Body = [1], ContentType = ''image/gif'',
                          LastModified = 1700000001000\<rparr>),
                        (''images/1700000000000-k3x9.gif'',
                         \<lparr>Body = [2, 3], ContentType = ''image/gif'',
                          LastModified = 1700000005000\<rparr>)]\<rparr>"

section \<open>Upload: what is refused, and when\<close>

text \<open>
  C4. An upload longer than the configured maximum is refused by multer with its
  size error, and an upload whose resolved type is not allowed is refused by the
  handler's validation; in both cases the world that comes back is the world that
  went in, call record included: the backend has received no put, delete or list
  call and holds what it held.
\<close>

theorem upload_rejected_before_backend_io:
  assumes "req_file req = Some f"
  shows "(length (buffer f) > MAX_FILE_SIZE cfg \<longrightarrow>
            post_upload cfg L e req w = (MulterError ''LIMIT_FILE_SIZE'', w)) \<and>
         (length (buffer f) \<le> MAX_FILE_SIZE cfg \<and> detect L f \<notin> ALLOWED \<longrightarrow>
            post_upload cfg L e req w = (Fail 400 ''Unsupported file type'', w))"
  using assms by (simp add: post_upload_def upload_handler_def)

theorem upload_rejected_before_backend_io_witness:
  "req_file (demo_req\<lparr>req_file := Some exe_file\<rparr>) = Some exe_file \<and>
   length (buffer exe_file) > MAX_FILE_SIZE (demo_s3\<lparr>MAX_FILE_SIZE := 3\<rparr>) \<and>
   length (buffer exe_file) \<le> MAX_FILE_SIZE demo_s3 \<and>
   detect demo_libs exe_file \<notin> ALLOWED \<and>
   post_upload (demo_s3\<lparr>MAX_FILE_SIZE := 3\<rparr>) demo_libs demo_env
       (demo_req\<lparr>req_file := Some exe_file\<rparr>) world0 = (MulterError ''LIMIT_FILE_SIZE'', world0) \<and>
   post_upload demo_s3 demo_libs demo_env
       (demo_req\<lparr>req_file := Some exe_file\<rparr>) world0 = (Fail 400 ''Unsupported file type'', world0)"
proof -
  have a: "req_file (demo_req\<lparr>req_file := Some exe_file\<rparr>) = Some exe_file" by simp
  have b: "length (buffer exe_file) > MAX_FILE_SIZE (demo_s3\<lparr>MAX_FILE_SIZE := 3\<rparr>)"
    by (simp add: exe_file_def demo_s3_def)
  have c: "detect demo_libs exe_file \<notin> ALLOWED"
    by (simp add: detect_def demo_libs_def sniff_signature_def exe_file_def ALLOWED_def)
  have d: "length (buffer exe_file) \<le> MAX_FILE_SIZE demo_s3"
    by (simp add: exe_file_def demo_s3_def demo_local_def)
  show ?thesis
    using a b c d
      upload_rejected_before_backend_io
        [OF a, of "demo_s3\<lparr>MAX_FILE_SIZE := 3\<rparr>" demo_libs demo_env world0]
      upload_rejected_before_backend_io [OF a, of demo_s3 demo_libs demo_env world0]
    by blast
qed

section \<open>The upload pipeline, step by step\<close>

lemma store_s3_unfold:
  "store_s3 cfg e f d fn tn tb w =
     (if fault w (PutObject (''images/'' @ fn))
      then (server_error, w\<lparr>calls := calls w @ [PutObject (''images/'' @ fn)]\<rparr>)
      else if fault w (PutObject (''images/'' @ tn))
      then (server_error,
            w\<lparr>bucket := AList.update (''images/'' @ fn)
                   \<lparr>Body = buffer f, ContentType = d, LastModified = clock w\<rparr> (bucket w),
              calls := calls w @ [PutObject (''images/'' @ fn), PutObject (''images/'' @ tn)]\<rparr>)
      else (Json \<lparr>u_file = fn, u_url = s3_url cfg @ encodeURIComponent (''images/'' @ fn),
                  u_thumbnail = s3_url cfg @ encodeURIComponent (''images/'' @ tn),
                  u_mime = d, u_size = length (buffer f), u_date = new_Date e\<rparr>,
            w\<lparr>bucket := AList.update (''images/'' @ tn)
                   \<lparr>Body = tb, ContentType = d, LastModified = clock w\<rparr>
                   (AList.update (''images/'' @ fn)
                      \<lparr>Body = buffer f, ContentType = d, LastModified = clock w\<rparr> (bucket w)),
              calls := calls w @ [PutObject (''images/'' @ fn), PutObject (''images/'' @ tn)]\<rparr>))"
  by (simp add: store_s3_def uploadBufferToS3_def putObject_def logged_def)

lemma writeFile_unfold:
  "writeFile p dat w =
     (if fault w (WriteFile p) \<or> fs_lookup (fs w) p = Some Dir
         \<or> fs_lookup (fs w) (parent_dir p) \<noteq> Some Dir \<or> (p \<noteq> [] \<and> last p = CHR ''/'')
      then (Rejected, w\<lparr>calls := calls w @ [WriteFile p]\<rparr>)
      else (Resolved (),
            w\<lparr>fs := AList.update p (File dat (clock w)) (fs w),
              calls := calls w @ [WriteFile p]\<rparr>))"
  by (simp add: writeFile_def logged_def)

lemma upload_handler_unfold:
  assumes "req_file req = Some f" and "detect L f \<in> ALLOWED"
    and "sharp_thumbnail L (buffer f) = Some tb"
  shows "upload_handler cfg L e req w =
           (if STORAGE cfg = ''s3''
            then store_s3 cfg e f (detect L f) (gen_filename e (gen_ext (detect L f)))
                   (upload_thumbName (gen_filename e (gen_ext (detect L f))) (gen_ext (detect L f)))
                   tb w
            else store_local cfg e req f (detect L f) (gen_filename e (gen_ext (detect L f)))
                   (upload_thumbName (gen_filename e (gen_ext (detect L f))) (gen_ext (detect L f)))
                   tb w)"
  using assms by (simp add: upload_handler_def Let_def)

section \<open>The arithmetic of the resize\<close>

text \<open>Rounding to the nearest pixel, in integers.\<close>

lemma round_half_eval:
  assumes "0 < b"
  shows "nat \<lfloor>(of_nat a :: rat) / of_nat b + 1 / 2\<rfloor> = (2 * a + b) div (2 * b)"
proof -
  have "(of_nat a :: rat) / of_nat b + 1 / 2 = of_int (int (2 * a + b)) / of_int (int (2 * b))"
    using assms by (simp add: field_simps)
  then have "\<lfloor>(of_nat a :: rat) / of_nat b + 1 / 2\<rfloor> = int (2 * a + b) div int (2 * b)"
    by (simp only: floor_divide_of_int_eq)
  then show ?thesis
    by (simp add: zdiv_int [symmetric] del: of_nat_add of_nat_mult)
qed








lemma resize_inside_eval:
  assumes "0 < w" and "0 < h" and "h \<le> w" and "w \<le> 1024 * h"
  shows "resize_inside 1024 1024 \<lparr>fmt = f, width = w, height = h\<rparr>
           = \<lparr>fmt = f, width = 1024, height = (2048 * h + w) div (2 * w)\<rparr>"
proof -
  let ?W = "of_nat w :: rat" and ?H = "of_nat h :: rat"
  have W: "0 < ?W" and H: "0 < ?H" using assms by simp_all
  have le: "?H \<le> ?W" using assms by simp
  have le2: "?W \<le> 1024 * ?H" using assms(4) by (metis of_nat_le_iff of_nat_mult of_nat_numeral)
  have s: "max (?W / 1024) (?H / 1024) = ?W / 1024" using le by simp
  have m1: "min (?W / 1024) ?W = ?W / 1024" using W by simp
  have m2: "min (?W / 1024) ?H = ?W / 1024" using le2 by simp
  have d1: "?W / (?W / 1024) + 1 / 2 = 2049 / 2" using W by simp
  have fl: "\<lfloor>2049 / 2 :: rat\<rfloor> = 1024" by (simp add: floor_eq_iff)
  have d2: "?H / (?W / 1024) + 1 / 2 = of_nat (1024 * h) / of_nat w + 1 / 2" using W by simp
  have r1: "nat \<lfloor>?W / (?W / 1024) + 1 / 2\<rfloor> = 1024"
    unfolding d1 fl by simp
  have r2: "nat \<lfloor>?H / (?W / 1024) + 1 / 2\<rfloor> = (2048 * h + w) div (2 * w)"
    unfolding d2 using round_half_eval [OF assms(1), of "1024 * h"] by simp
  have fl0: "\<lfloor>1 / 2 :: rat\<rfloor> = 0" by (simp add: floor_eq_iff)
  have r2': "nat \<lfloor>?H * 1024 / ?W + 1 / 2\<rfloor> = (2048 * h + w) div (2 * w)"
    using r2 by simp
  show ?thesis
    using assms(1) by (simp add: resize_inside_def Let_def s m1 m2 fl fl0 r2')
qed

section \<open>The example upload\<close>

lemma demo_detect: "detect demo_libs gif_file = ''image/gif''"
  by (simp add: detect_def demo_libs_def sniff_signature_def gif_file_def)

lemma demo_ext: "gen_ext ''image/gif'' = ''gif''"
  by (simp add: gen_ext_def mime_extension_def)

lemma demo_filename: "gen_filename demo_env ''gif'' = ''1700000000000-k3x9.gif''"
  by (simp add: gen_filename_def demo_env_def digits10.simps)

lemma demo_thumbName:
  "upload_thumbName ''1700000000000-k3x9.gif'' ''gif'' = ''1700000000000-k3x9_thumb.gif''"
  by (simp add: upload_thumbName_def js_replace_def)

lemma demo_decode:
  "toy_decode (buffer gif_file) = Some \<lparr>fmt = ''image/gif'', width = 800, height = 600\<rparr>"
  by (simp add: toy_decode_def sniff_signature_def gif_file_def)

lemma demo_resize:
  "resize_inside 1024 1024 \<lparr>fmt = ''image/gif'', width = 800, height = 600\<rparr>
     = \<lparr>fmt = ''image/gif'', width = 1024, height = 768\<rparr>"
  by (simp add: resize_inside_eval)

lemma demo_thumbnail: "sharp_thumbnail demo_libs (buffer gif_file) = Some [1024, 768]"
  by (simp add: sharp_thumbnail_def demo_libs_def demo_decode demo_resize toy_encode_def)

lemma demo_upload_s3:
  "post_upload demo_s3 demo_libs demo_env demo_req world0 =
     (Json \<lparr>u_file = ''1700000000000-k3x9.gif'',
            u_url = ''https://pics.s3.eu-west-1.amazonaws.com/images%2F1700000000000-k3x9.gif'',
            u_thumbnail =
              ''https://pics.s3.eu-west-1.amazonaws.com/images%2F1700000000000-k3x9_thumb.gif'',
            u_mime = ''image/gif'', u_size = 8, u_date = 1700000000001\<rparr>,
      world0\<lparr>bucket :=
               [(''images/1700000000000-k3x9.gif'',
                 \<lparr>Body = buffer gif_file, ContentType = ''image/gif'',
                  LastModified = 1700000000002\<rparr>),
                (''images/1700000000000-k3x9_thumb.gif'',
                 \<lparr>Body = [1024, 768], ContentType = ''image/gif'',
                  LastModified = 1700000000002\<rparr>)],
             calls := [PutObject ''images/1700000000000-k3x9.gif'',
                       PutObject ''images/1700000000000-k3x9_thumb.gif'']\<rparr>)"
proof -
  have f: "req_file demo_req = Some gif_file" by (simp add: demo_req_def)
  have a: "detect demo_libs gif_file \<in> ALLOWED" by (simp add: demo_detect ALLOWED_def)
  have sz: "\<not> length (buffer gif_file) > MAX_FILE_SIZE demo_s3"
    by (simp add: gif_file_def demo_s3_def demo_local_def)
  have st: "STORAGE demo_s3 = ''s3''" by (simp add: demo_s3_def)
  have s1: "post_upload demo_s3 demo_libs demo_env demo_req world0 =
          upload_handler demo_s3 demo_libs demo_env demo_req world0"
    using f sz by (simp add: post_upload_def)
  have s2: "upload_handler demo_s3 demo_libs demo_env demo_req world0 =
          store_s3 demo_s3 demo_env gif_file ''image/gif'' ''1700000000000-k3x9.gif''
                     ''1700000000000-k3x9_thumb.gif'' [1024, 768] world0"
    using upload_handler_unfold [OF f a demo_thumbnail, of demo_s3 demo_env world0]
    by (simp add: st demo_detect demo_ext demo_filename demo_thumbName)
  show ?thesis
    unfolding s1 s2
    by (simp add: store_s3_unfold world0_def s3_url_def demo_s3_def demo_local_def
        demo_env_def encodeURIComponent_def uri_unreserved_def hex_digit_def
        less_eq_char_def gif_file_def)
qed

section \<open>Upload: the resolved type\<close>

lemma store_s3_result:
  "fst (store_s3 cfg e f d fn tn tb w) = server_error \<or>
   (\<exists>m. fst (store_s3 cfg e f d fn tn tb w) = Json m \<and> u_file m = fn \<and> u_mime m = d)"
  by (simp add: store_s3_unfold)

lemma store_local_result:
  "fst (store_local cfg e req f d fn tn tb w) = server_error \<or>
   (\<exists>m. fst (store_local cfg e req f d fn tn tb w) = Json m \<and> u_file m = fn \<and> u_mime m = d)"
  by (simp add: store_local_def Let_def split: prod.splits outcome.splits)

lemma upload_handler_result:
  assumes "req_file req = Some f" and "detect L f \<in> ALLOWED"
  shows "fst (upload_handler cfg L e req w) = server_error \<or>
         (\<exists>m. fst (upload_handler cfg L e req w) = Json m \<and>
              u_file m = gen_filename e (gen_ext (detect L f)) \<and> u_mime m = detect L f)"
proof (cases "sharp_thumbnail L (buffer f)")
  case None
  with assms show ?thesis by (simp add: upload_handler_def Let_def)
next
  case (Some tb)
  show ?thesis
    unfolding upload_handler_unfold [OF assms Some]
    using store_s3_result store_local_result by simp
qed

text \<open>
  C5. The type Upload works with is the one sniffed from the buffer, and the declared
  type only when nothing is sniffed. An upload that reaches the handler is refused as
  an unsupported type exactly when that type is outside the allow-list. A buffer with
  a GIF signature is not refused whatever type was declared, and when it is stored
  its type is \<open>image/gif\<close> and its name ends in \<open>.gif\<close>.
\<close>

theorem upload_resolves_sniffed_type:
  assumes "req_file req = Some f" and "length (buffer f) \<le> MAX_FILE_SIZE cfg"
  shows "(\<forall>m. fromBuffer L (buffer f) = Some m \<longrightarrow> detect L f = m) \<and>
         (fromBuffer L (buffer f) = None \<longrightarrow> detect L f = mimetype f) \<and>
         (fst (post_upload cfg L e req w) = Fail 400 ''Unsupported file type''
            \<longleftrightarrow> detect L f \<notin> ALLOWED) \<and>
         (\<forall>r. fst (post_upload cfg L e req w) = Json r \<longrightarrow>
              u_mime r = detect L f \<and> u_file r = gen_filename e (gen_ext (detect L f))) \<and>
         (fromBuffer L (buffer f) = Some ''image/gif'' \<longrightarrow>
            fst (post_upload cfg L e req w) \<noteq> Fail 400 ''Unsupported file type'' \<and>
            (\<forall>r. fst (post_upload cfg L e req w) = Json r \<longrightarrow>
                 u_mime r = ''image/gif'' \<and>
                 u_file r = digits10 (Date_now e) @ ''-'' @ drop 2 (random_str e) @ ''.gif''))"
proof -
  have pu: "post_upload cfg L e req w = upload_handler cfg L e req w"
    using assms by (simp add: post_upload_def)
  have d1: "\<forall>m. fromBuffer L (buffer f) = Some m \<longrightarrow> detect L f = m"
    and d2: "fromBuffer L (buffer f) = None \<longrightarrow> detect L f = mimetype f"
    by (simp_all add: detect_def)
  have bad: "detect L f \<notin> ALLOWED \<Longrightarrow>
               fst (upload_handler cfg L e req w) = Fail 400 ''Unsupported file type''"
    using assms by (simp add: upload_handler_def)
  have good: "detect L f \<in> ALLOWED \<Longrightarrow>
               fst (upload_handler cfg L e req w) \<noteq> Fail 400 ''Unsupported file type''"
    using upload_handler_result [OF assms(1), of L cfg e w] by auto
  have iff: "fst (post_upload cfg L e req w) = Fail 400 ''Unsupported file type''
               \<longleftrightarrow> detect L f \<notin> ALLOWED"
    unfolding pu using bad good by blast
  have js: "\<forall>r. fst (post_upload cfg L e req w) = Json r \<longrightarrow>
              u_mime r = detect L f \<and> u_file r = gen_filename e (gen_ext (detect L f))"
  proof (intro allI impI)
    fix r assume r: "fst (post_upload cfg L e req w) = Json r"
    then have "detect L f \<in> ALLOWED" using bad pu by auto
    from upload_handler_result [OF assms(1) this, of cfg e w] r
    show "u_mime r = detect L f \<and> u_file r = gen_filename e (gen_ext (detect L f))"
      unfolding pu by auto
  qed
  have gif: "fromBuffer L (buffer f) = Some ''image/gif'' \<longrightarrow>
            fst (post_upload cfg L e req w) \<noteq> Fail 400 ''Unsupported file type'' \<and>
            (\<forall>r. fst (post_upload cfg L e req w) = Json r \<longrightarrow>
                 u_mime r = ''image/gif'' \<and>
                 u_file r = digits10 (Date_now e) @ ''-'' @ drop 2 (random_str e) @ ''.gif'')"
  proof
    assume s: "fromBuffer L (buffer f) = Some ''image/gif''"
    then have d: "detect L f = ''image/gif''" by (simp add: detect_def)
    have "detect L f \<in> ALLOWED" by (simp add: d ALLOWED_def)
    with iff have "fst (post_upload cfg L e req w) \<noteq> Fail 400 ''Unsupported file type''"
      by simp
    moreover have "gen_filename e (gen_ext ''image/gif'')
                     = digits10 (Date_now e) @ ''-'' @ drop 2 (random_str e) @ ''.gif''"
      by (simp add: gen_filename_def demo_ext)
    ultimately show "fst (post_upload cfg L e req w) \<noteq> Fail 400 ''Unsupported file type'' \<and>
            (\<forall>r. fst (post_upload cfg L e req w) = Json r \<longrightarrow>
                 u_mime r = ''image/gif'' \<and>
                 u_file r = digits10 (Date_now e) @ ''-'' @ drop 2 (random_str e) @ ''.gif'')"
      using js d by simp
  qed
  from d1 d2 iff js gif show ?thesis by blast
qed

theorem upload_resolves_sniffed_type_witness:
  "req_file demo_req = Some gif_file \<and>
   length (buffer gif_file) \<le> MAX_FILE_SIZE demo_s3 \<and>
   mimetype gif_file = ''image/png'' \<and>
   fromBuffer demo_libs (buffer gif_file) = Some ''image/gif'' \<and>
   detect demo_libs gif_file = ''image/gif'' \<and>
   (\<exists>r. fst (post_upload demo_s3 demo_libs demo_env demo_req world0) = Json r \<and>
        u_mime r = ''image/gif'' \<and> u_file r = ''1700000000000-k3x9.gif'')"
proof -
  have a: "req_file demo_req = Some gif_file" by (simp add: demo_req_def)
  have b: "length (buffer gif_file) \<le> MAX_FILE_SIZE demo_s3"
    by (simp add: gif_file_def demo_s3_def demo_local_def)
  have c: "mimetype gif_file = ''image/png''" by (simp add: gif_file_def)
  have d: "fromBuffer demo_libs (buffer gif_file) = Some ''image/gif''"
    by (simp add: demo_libs_def sniff_signature_def gif_file_def)
  obtain r where r: "fst (post_upload demo_s3 demo_libs demo_env demo_req world0) = Json r"
    by (simp add: demo_upload_s3)
  have n: "digits10 (Date_now demo_env) @ ''-'' @ drop 2 (random_str demo_env) @ ''.gif''
             = ''1700000000000-k3x9.gif''"
    by (simp add: demo_env_def digits10.simps)
  from upload_resolves_sniffed_type [OF a b, of demo_libs demo_env world0] d r
  have "detect demo_libs gif_file = ''image/gif''" and "u_mime r = ''image/gif''"
    and "u_file r = digits10 (Date_now demo_env) @ ''-'' @ drop 2 (random_str demo_env) @ ''.gif''"
    by blast+
  with a b c d r n show ?thesis by auto
qed

section \<open>Upload: a failed thumbnail put\<close>

lemma demo_upload_handler_s3:
  "upload_handler demo_s3 demo_libs demo_env demo_req w =
     store_s3 demo_s3 demo_env gif_file ''image/gif'' ''1700000000000-k3x9.gif''
       ''1700000000000-k3x9_thumb.gif'' [1024, 768] w"
proof -
  have f: "req_file demo_req = Some gif_file" by (simp add: demo_req_def)
  have a: "detect demo_libs gif_file \<in> ALLOWED" by (simp add: demo_detect ALLOWED_def)
  have st: "STORAGE demo_s3 = ''s3''" by (simp add: demo_s3_def)
  show ?thesis
    using upload_handler_unfold [OF f a demo_thumbnail, of demo_s3 demo_env w]
    by (simp add: st demo_detect demo_ext demo_filename demo_thumbName)
qed

lemma demo_post_upload:
  "post_upload demo_s3 demo_libs demo_env demo_req w =
     upload_handler demo_s3 demo_libs demo_env demo_req w"
  by (simp add: post_upload_def demo_req_def gif_file_def demo_s3_def demo_local_def)

text \<open>
  C3, as stated, fails: with the thumbnail put failing after the original put has
  succeeded, the S3 backend receives the two puts and no delete, and the original is
  left in the bucket without its thumbnail.
\<close>

theorem upload_leaves_orphan_counterexample:
  "fst (post_upload demo_s3 demo_libs demo_env demo_req thumb_fault_world) = server_error \<and>
   calls (snd (post_upload demo_s3 demo_libs demo_env demo_req thumb_fault_world)) =
     [PutObject ''images/1700000000000-k3x9.gif'',
      PutObject ''images/1700000000000-k3x9_thumb.gif''] \<and>
   DeleteObject ''images/1700000000000-k3x9.gif''
     \<notin> set (calls (snd (post_upload demo_s3 demo_libs demo_env demo_req thumb_fault_world))) \<and>
   map_of (bucket (snd (post_upload demo_s3 demo_libs demo_env demo_req thumb_fault_world)))
     ''images/1700000000000-k3x9.gif'' \<noteq> None \<and>
   map_of (bucket (snd (post_upload demo_s3 demo_libs demo_env demo_req thumb_fault_world)))
     ''images/1700000000000-k3x9_thumb.gif'' = None"
  unfolding demo_post_upload demo_upload_handler_s3
  by (simp add: store_s3_unfold thumb_fault_world_def world0_def)

lemma demo_dirs:
  "UPLOAD_DIR demo_local = ''/app/uploads''" "THUMB_DIR demo_local = ''/app/uploads/thumbs''"
  by (simp_all add: UPLOAD_DIR_def THUMB_DIR_def demo_local_def path_join_def normalize_def)

lemma demo_paths:
  "path_join ''/app/uploads'' ''1700000000000-k3x9.gif'' = ''/app/uploads/1700000000000-k3x9.gif''"
  "path_join ''/app/uploads/thumbs'' ''1700000000000-k3x9_thumb.gif''
     = ''/app/uploads/thumbs/1700000000000-k3x9_thumb.gif''"
  by (simp_all add: path_join_def normalize_def)

lemma fs_lookup_written:
  assumes "fst (writeFile p dat w) = Resolved ()"
  shows "fs_lookup (fs (snd (writeFile p dat w))) p = Some (File dat (clock w))"
  using assms by (auto simp add: writeFile_unfold fs_lookup_def update_conv' split: if_splits)

lemma writeFile_calls: "calls (snd (writeFile p dat w)) = calls w @ [WriteFile p]"
  by (simp add: writeFile_unfold)

lemma writeFile_rejected_fs:
  "fst (writeFile p dat w) = Rejected \<Longrightarrow> fs (snd (writeFile p dat w)) = fs w"
  by (auto simp add: writeFile_unfold split: if_splits)

text \<open>
  C3, amended. When the original put succeeds and the thumbnail put fails, Upload
  answers with the server error and makes no further backend call: the calls added to
  the record are exactly the two puts, and the original just written is still stored.
  This holds for the S3 branch and for the local branch.
\<close>

theorem upload_no_cleanup_after_thumbnail_failure:
  assumes "req_file req = Some f" and "length (buffer f) \<le> MAX_FILE_SIZE cfg"
    and "detect L f \<in> ALLOWED" and "sharp_thumbnail L (buffer f) = Some tb"
    and "fn = gen_filename e (gen_ext (detect L f))"
    and "tn = upload_thumbName fn (gen_ext (detect L f))"
    and "outPath = path_join (UPLOAD_DIR cfg) fn"
    and "thumbPath = path_join (THUMB_DIR cfg) tn"
  shows "(STORAGE cfg = ''s3'' \<and> \<not> fault w (PutObject (''images/'' @ fn)) \<and>
            fault w (PutObject (''images/'' @ tn)) \<longrightarrow>
          fst (post_upload cfg L e req w) = server_error \<and>
          calls (snd (post_upload cfg L e req w)) =
            calls w @ [PutObject (''images/'' @ fn), PutObject (''images/'' @ tn)] \<and>
          map_of (bucket (snd (post_upload cfg L e req w))) (''images/'' @ fn) =
            Some \<lparr>Body = buffer f, ContentType = detect L f, LastModified = clock w\<rparr>) \<and>
         (STORAGE cfg \<noteq> ''s3'' \<and> fst (writeFile outPath (buffer f) w) = Resolved () \<and>
            fst (writeFile thumbPath tb (snd (writeFile outPath (buffer f) w))) = Rejected \<longrightarrow>
          fst (post_upload cfg L e req w) = server_error \<and>
          calls (snd (post_upload cfg L e req w)) =
            calls w @ [WriteFile outPath, WriteFile thumbPath] \<and>
          fs_lookup (fs (snd (post_upload cfg L e req w))) outPath =
            Some (File (buffer f) (clock w)))"
proof -
  have pu: "post_upload cfg L e req w = upload_handler cfg L e req w"
    using assms(1,2) by (simp add: post_upload_def)
  note uh = upload_handler_unfold [OF assms(1,3,4), of cfg e w, folded assms(5), folded assms(6)]
  have s3: "STORAGE cfg = ''s3'' \<and> \<not> fault w (PutObject (''images/'' @ fn)) \<and>
            fault w (PutObject (''images/'' @ tn)) \<longrightarrow>
          fst (post_upload cfg L e req w) = server_error \<and>
          calls (snd (post_upload cfg L e req w)) =
            calls w @ [PutObject (''images/'' @ fn), PutObject (''images/'' @ tn)] \<and>
          map_of (bucket (snd (post_upload cfg L e req w))) (''images/'' @ fn) =
            Some \<lparr>Body = buffer f, ContentType = detect L f, LastModified = clock w\<rparr>"
    unfolding pu uh by (simp add: store_s3_unfold update_conv')
  have loc: "STORAGE cfg \<noteq> ''s3'' \<and> fst (writeFile outPath (buffer f) w) = Resolved () \<and>
            fst (writeFile thumbPath tb (snd (writeFile outPath (buffer f) w))) = Rejected \<longrightarrow>
          fst (post_upload cfg L e req w) = server_error \<and>
          calls (snd (post_upload cfg L e req w)) =
            calls w @ [WriteFile outPath, WriteFile thumbPath] \<and>
          fs_lookup (fs (snd (post_upload cfg L e req w))) outPath =
            Some (File (buffer f) (clock w))"
  proof (intro impI, elim conjE)
    assume st: "STORAGE cfg \<noteq> ''s3''"
      and w1: "fst (writeFile outPath (buffer f) w) = Resolved ()"
      and w2: "fst (writeFile thumbPath tb (snd (writeFile outPath (buffer f) w))) = Rejected"
    obtain w1' where e1: "writeFile outPath (buffer f) w = (Resolved (), w1')"
      using w1 by (cases "writeFile outPath (buffer f) w") auto
    obtain w2' where e2: "writeFile thumbPath tb w1' = (Rejected, w2')"
      using w2 e1 by (cases "writeFile thumbPath tb w1'") auto
    have r: "post_upload cfg L e req w = (server_error, w2')"
      unfolding pu uh using st
      by (simp add: store_local_def Let_def assms(7) [symmetric] assms(8) [symmetric] e1 e2)
    have c: "calls w2' = calls w @ [WriteFile outPath, WriteFile thumbPath]"
      using writeFile_calls [of outPath "buffer f" w] writeFile_calls [of thumbPath tb w1']
      by (simp add: e1 e2)
    have k: "fs_lookup (fs w2') outPath = Some (File (buffer f) (clock w))"
      using writeFile_rejected_fs [of thumbPath tb w1'] fs_lookup_written [of outPath "buffer f" w]
      by (simp add: e1 e2)
    show "fst (post_upload cfg L e req w) = server_error \<and>
          calls (snd (post_upload cfg L e req w)) =
            calls w @ [WriteFile outPath, WriteFile thumbPath] \<and>
          fs_lookup (fs (snd (post_upload cfg L e req w))) outPath =
            Some (File (buffer f) (clock w))"
      using r c k by simp
  qed
  from s3 loc show ?thesis by blast
qed

theorem upload_no_cleanup_after_thumbnail_failure_witness:
  "\<not> fault thumb_fault_world (PutObject ''images/1700000000000-k3x9.gif'') \<and>
   fault thumb_fault_world (PutObject ''images/1700000000000-k3x9_thumb.gif'') \<and>
   fst (post_upload demo_s3 demo_libs demo_env demo_req thumb_fault_world) = server_error \<and>
   calls (snd (post_upload demo_s3 demo_libs demo_env demo_req thumb_fault_world)) =
     [PutObject ''images/1700000000000-k3x9.gif'',
      PutObject ''images/1700000000000-k3x9_thumb.gif''] \<and>
   map_of (bucket (snd (post_upload demo_s3 demo_libs demo_env demo_req thumb_fault_world)))
     ''images/1700000000000-k3x9.gif'' =
     Some \<lparr>Body = buffer gif_file, ContentType = ''image/gif'', LastModified = 1700000000002\<rparr> \<and>
   fst (writeFile ''/app/uploads/1700000000000-k3x9.gif'' (buffer gif_file) no_thumbs_world)
     = Resolved () \<and>
   fst (writeFile ''/app/uploads/thumbs/1700000000000-k3x9_thumb.gif'' [1024, 768]
          (snd (writeFile ''/app/uploads/1700000000000-k3x9.gif'' (buffer gif_file)
                  no_thumbs_world))) = Rejected \<and>
   fst (post_upload demo_local demo_libs demo_env demo_req no_thumbs_world) = server_error \<and>
   calls (snd (post_upload demo_local demo_libs demo_env demo_req no_thumbs_world)) =
     [WriteFile ''/app/uploads/1700000000000-k3x9.gif'',
      WriteFile ''/app/uploads/thumbs/1700000000000-k3x9_thumb.gif''] \<and>
   fs_lookup (fs (snd (post_upload demo_local demo_libs demo_env demo_req no_thumbs_world)))
     ''/app/uploads/1700000000000-k3x9.gif'' = Some (File (buffer gif_file) 1700000000002)"
proof -
  have a: "req_file demo_req = Some gif_file" by (simp add: demo_req_def)
  have b: "length (buffer gif_file) \<le> MAX_FILE_SIZE demo_s3"
    and b': "length (buffer gif_file) \<le> MAX_FILE_SIZE demo_local"
    by (simp_all add: gif_file_def demo_s3_def demo_local_def)
  have c: "detect demo_libs gif_file \<in> ALLOWED" by (simp add: demo_detect ALLOWED_def)
  have fn: "''1700000000000-k3x9.gif'' = gen_filename demo_env (gen_ext (detect demo_libs gif_file))"
    by (simp add: demo_detect demo_ext demo_filename)
  have tn: "''1700000000000-k3x9_thumb.gif''
              = upload_thumbName ''1700000000000-k3x9.gif'' (gen_ext (detect demo_libs gif_file))"
    by (simp add: demo_detect demo_ext demo_thumbName)
  have op: "''/app/uploads/1700000000000-k3x9.gif''
              = path_join (UPLOAD_DIR demo_local) ''1700000000000-k3x9.gif''"
    and tp: "''/app/uploads/thumbs/1700000000000-k3x9_thumb.gif''
              = path_join (THUMB_DIR demo_local) ''1700000000000-k3x9_thumb.gif''"
    by (simp_all only: demo_dirs demo_paths)
  have op3: "''/app/uploads/1700000000000-k3x9.gif''
              = path_join (UPLOAD_DIR demo_s3) ''1700000000000-k3x9.gif''"
    and tp3: "''/app/uploads/thumbs/1700000000000-k3x9_thumb.gif''
              = path_join (THUMB_DIR demo_s3) ''1700000000000-k3x9_thumb.gif''"
    using op tp by (simp_all add: UPLOAD_DIR_def THUMB_DIR_def demo_s3_def)
  have h1: "STORAGE demo_s3 = ''s3''" and h1': "STORAGE demo_local \<noteq> ''s3''"
    by (simp_all add: demo_s3_def demo_local_def)
  have h2: "\<not> fault thumb_fault_world (PutObject (''images/'' @ ''1700000000000-k3x9.gif''))"
    and h3: "fault thumb_fault_world (PutObject (''images/'' @ ''1700000000000-k3x9_thumb.gif''))"
    by (simp_all add: thumb_fault_world_def)
  have ck: "clock thumb_fault_world = 1700000000002" "calls thumb_fault_world = []"
    "clock no_thumbs_world = 1700000000002" "calls no_thumbs_world = []"
    by (simp_all add: thumb_fault_world_def no_thumbs_world_def world0_def)
  have g1: "fst (writeFile ''/app/uploads/1700000000000-k3x9.gif'' (buffer gif_file)
                  no_thumbs_world) = Resolved ()"
    by (simp add: writeFile_unfold no_thumbs_world_def world0_def fs_lookup_def parent_dir_def)
  have g2: "fst (writeFile ''/app/uploads/thumbs/1700000000000-k3x9_thumb.gif'' [1024, 768]
          (snd (writeFile ''/app/uploads/1700000000000-k3x9.gif'' (buffer gif_file)
                  no_thumbs_world))) = Rejected"
    by (simp add: writeFile_unfold no_thumbs_world_def world0_def fs_lookup_def parent_dir_def)
  from upload_no_cleanup_after_thumbnail_failure
         [OF a b c demo_thumbnail fn tn op3 tp3, of thumb_fault_world] h1 h2 h3
  have s3: "fst (post_upload demo_s3 demo_libs demo_env demo_req thumb_fault_world) = server_error"
    "calls (snd (post_upload demo_s3 demo_libs demo_env demo_req thumb_fault_world)) =
       calls thumb_fault_world @ [PutObject (''images/'' @ ''1700000000000-k3x9.gif''),
         PutObject (''images/'' @ ''1700000000000-k3x9_thumb.gif'')]"
    "map_of (bucket (snd (post_upload demo_s3 demo_libs demo_env demo_req thumb_fault_world)))
       (''images/'' @ ''1700000000000-k3x9.gif'') =
       Some \<lparr>Body = buffer gif_file, ContentType = detect demo_libs gif_file,
             LastModified = clock thumb_fault_world\<rparr>"
    by blast+
  from upload_no_cleanup_after_thumbnail_failure
         [OF a b' c demo_thumbnail fn tn op tp, of no_thumbs_world] h1' g1 g2
  have loc: "fst (post_upload demo_local demo_libs demo_env demo_req no_thumbs_world) = server_error"
    "calls (snd (post_upload demo_local demo_libs demo_env demo_req no_thumbs_world)) =
       calls no_thumbs_world @ [WriteFile ''/app/uploads/1700000000000-k3x9.gif'',
         WriteFile ''/app/uploads/thumbs/1700000000000-k3x9_thumb.gif'']"
    "fs_lookup (fs (snd (post_upload demo_local demo_libs demo_env demo_req no_thumbs_world)))
       ''/app/uploads/1700000000000-k3x9.gif'' =
       Some (File (buffer gif_file) (clock no_thumbs_world))"
    by blast+
  show ?thesis
    using h2 h3 s3 loc g1 g2 by (simp add: ck demo_detect)
qed

section \<open>Upload: the thumbnail\<close>





lemma demo_upload_s3':
  "post_upload demo_s3 demo_libs demo_env demo_req world0 = (Json demo_meta, after_upload_s3)"
  by (simp only: demo_upload_s3 demo_meta_def after_upload_s3_def)



lemma delete_s3_unfold:
  "delete_s3 file w =
     (if fault w (DeleteObject (''images/'' @ file))
      then (server_error, w\<lparr>calls := calls w @ [DeleteObject (''images/'' @ file)]\<rparr>)
      else if fault w (DeleteObject (''images/'' @ ext_thumbName file))
      then (server_error,
            w\<lparr>bucket := AList.delete (''images/'' @ file) (bucket w),
              calls := calls w @ [DeleteObject (''images/'' @ file),
                                  DeleteObject (''images/'' @ ext_thumbName file)]\<rparr>)
      else (Json True,
            w\<lparr>bucket := AList.delete (''images/'' @ ext_thumbName file)
                          (AList.delete (''images/'' @ file) (bucket w)),
              calls := calls w @ [DeleteObject (''images/'' @ file),
                                  DeleteObject (''images/'' @ ext_thumbName file)]\<rparr>))"
  by (simp add: delete_s3_def deleteObject_def logged_def)

lemma fs_lookup_delete_same:
  assumes "fs_lookup f p = Some (File c t)"
  shows "fs_lookup (AList.delete p f) p = None"
  using assms by (auto simp add: fs_lookup_def delete_conv' split: if_splits option.splits node.splits)

lemma fs_lookup_delete_None:
  assumes "fs_lookup f q = None"
  shows "fs_lookup (AList.delete p f) q = None"
  using assms by (auto simp add: fs_lookup_def delete_conv' split: if_splits option.splits node.splits)

lemma fs_lookup_delete_not_Dir:
  assumes "fs_lookup f q \<noteq> Some Dir"
  shows "fs_lookup (AList.delete p f) q \<noteq> Some Dir"
  using assms by (auto simp add: fs_lookup_def delete_conv' split: if_splits option.splits node.splits)

text \<open>What \<open>unlink_if_exists\<close> does to a path that is not a directory, on a backend
  that does not fail the call.\<close>

lemma unlink_if_exists_ok:
  assumes "\<not> fault w (Unlink p)" and "fs_lookup (fs w) p \<noteq> Some Dir"
  shows "fst (unlink_if_exists p w) = Resolved ()"
    and "fs_lookup (fs (snd (unlink_if_exists p w))) p = None"
    and "fault (snd (unlink_if_exists p w)) = fault w"
    and "bucket (snd (unlink_if_exists p w)) = bucket w"
    and "fs_lookup (fs w) q = None \<Longrightarrow> fs_lookup (fs (snd (unlink_if_exists p w))) q = None"
    and "fs_lookup (fs w) q \<noteq> Some Dir \<Longrightarrow>
           fs_lookup (fs (snd (unlink_if_exists p w))) q \<noteq> Some Dir"
proof -
  show "fst (unlink_if_exists p w) = Resolved ()"
    using assms
    by (cases "fs_lookup (fs w) p"; cases "the (fs_lookup (fs w) p)")
      (simp_all add: unlink_if_exists_def existsSync_def unlink_def)
  show "fs_lookup (fs (snd (unlink_if_exists p w))) p = None"
    using assms
    by (cases "fs_lookup (fs w) p"; cases "the (fs_lookup (fs w) p)")
      (simp_all add: unlink_if_exists_def existsSync_def unlink_def logged_def
        fs_lookup_delete_same)
  show "fault (snd (unlink_if_exists p w)) = fault w"
    by (simp add: unlink_if_exists_def existsSync_def unlink_def logged_def
        split: option.splits node.splits)
  show "bucket (snd (unlink_if_exists p w)) = bucket w"
    by (simp add: unlink_if_exists_def existsSync_def unlink_def logged_def
        split: option.splits node.splits)
  show "fs_lookup (fs w) q = None \<Longrightarrow> fs_lookup (fs (snd (unlink_if_exists p w))) q = None"
    by (simp add: unlink_if_exists_def existsSync_def unlink_def logged_def
        fs_lookup_delete_None split: option.splits node.splits)
  show "fs_lookup (fs w) q \<noteq> Some Dir \<Longrightarrow>
           fs_lookup (fs (snd (unlink_if_exists p w))) q \<noteq> Some Dir"
    by (simp add: unlink_if_exists_def existsSync_def unlink_def logged_def
        fs_lookup_delete_not_Dir split: option.splits node.splits)
qed

lemma unlink_if_exists_absent:
  "fs_lookup (fs w) p = None \<Longrightarrow> unlink_if_exists p w = (Resolved (), w)"
  by (simp add: unlink_if_exists_def existsSync_def)

lemma delete_local_ok:
  assumes f1: "\<not> fault w (Unlink (path_join (UPLOAD_DIR cfg) file))"
    and f2: "\<not> fault w (Unlink (path_join (THUMB_DIR cfg) (ext_thumbName file)))"
    and d1: "fs_lookup (fs w) (path_join (UPLOAD_DIR cfg) file) \<noteq> Some Dir"
    and d2: "fs_lookup (fs w) (path_join (THUMB_DIR cfg) (ext_thumbName file)) \<noteq> Some Dir"
  shows "fst (delete_local cfg file w) = Json True"
    and "fs_lookup (fs (snd (delete_local cfg file w))) (path_join (UPLOAD_DIR cfg) file) = None"
    and "fs_lookup (fs (snd (delete_local cfg file w)))
           (path_join (THUMB_DIR cfg) (ext_thumbName file)) = None"
    and "fault (snd (delete_local cfg file w)) = fault w"
    and "bucket (snd (delete_local cfg file w)) = bucket w"
proof -
  let ?fp = "path_join (UPLOAD_DIR cfg) file"
  let ?tp = "path_join (THUMB_DIR cfg) (ext_thumbName file)"
  obtain w1 where e1: "unlink_if_exists ?fp w = (Resolved (), w1)"
    using unlink_if_exists_ok(1) [OF f1 d1] by (cases "unlink_if_exists ?fp w") auto
  have w1: "snd (unlink_if_exists ?fp w) = w1" by (simp add: e1)
  note u1 = unlink_if_exists_ok [OF f1 d1, unfolded w1]
  have f2': "\<not> fault w1 (Unlink ?tp)" using f2 u1(3) by simp
  have d2': "fs_lookup (fs w1) ?tp \<noteq> Some Dir" using d2 by (rule u1(6))
  obtain w2 where e2: "unlink_if_exists ?tp w1 = (Resolved (), w2)"
    using unlink_if_exists_ok(1) [OF f2' d2'] by (cases "unlink_if_exists ?tp w1") auto
  have w2: "snd (unlink_if_exists ?tp w1) = w2" by (simp add: e2)
  note u2 = unlink_if_exists_ok [OF f2' d2', unfolded w2]
  have r: "delete_local cfg file w = (Json True, w2)"
    by (simp add: delete_local_def Let_def e1 e2)
  show "fst (delete_local cfg file w) = Json True" by (simp add: r)
  show "fs_lookup (fs (snd (delete_local cfg file w))) ?fp = None"
    using u2(5) [OF u1(2)] by (simp add: r)
  show "fs_lookup (fs (snd (delete_local cfg file w))) ?tp = None"
    using u2(2) by (simp add: r)
  show "fault (snd (delete_local cfg file w)) = fault w"
    using u1(3) u2(3) by (simp add: r)
  show "bucket (snd (delete_local cfg file w)) = bucket w"
    using u1(4) u2(4) by (simp add: r)
qed

lemma delete_local_absent:
  assumes "fs_lookup (fs w) (path_join (UPLOAD_DIR cfg) file) = None"
    and "fs_lookup (fs w) (path_join (THUMB_DIR cfg) (ext_thumbName file)) = None"
  shows "delete_local cfg file w = (Json True, w)"
  using assms by (simp add: delete_local_def Let_def unlink_if_exists_absent)

lemma delete_files_ok:
  assumes "deletable cfg w file"
  shows "fst (delete_files cfg file w) = Json True"
    and "\<not> original_present cfg (snd (delete_files cfg file w)) file"
    and "\<not> thumbnail_present cfg (snd (delete_files cfg file w)) file"
    and "deletable cfg (snd (delete_files cfg file w)) file"
proof -
  have all: "fst (delete_files cfg file w) = Json True \<and>
        \<not> original_present cfg (snd (delete_files cfg file w)) file \<and>
        \<not> thumbnail_present cfg (snd (delete_files cfg file w)) file \<and>
        deletable cfg (snd (delete_files cfg file w)) file"
  proof (cases "STORAGE cfg = ''s3''")
    case True
    with assms show ?thesis
      by (simp add: deletable_def delete_files_def delete_s3_unfold original_present_def
          thumbnail_present_def delete_conv')
  next
    case False
    with assms have h: "\<not> fault w (Unlink (path_join (UPLOAD_DIR cfg) file))"
      "\<not> fault w (Unlink (path_join (THUMB_DIR cfg) (ext_thumbName file)))"
      "fs_lookup (fs w) (path_join (UPLOAD_DIR cfg) file) \<noteq> Some Dir"
      "fs_lookup (fs w) (path_join (THUMB_DIR cfg) (ext_thumbName file)) \<noteq> Some Dir"
      by (simp_all add: deletable_def)
    note l = delete_local_ok [OF h]
    from False h l show ?thesis
      by (simp add: deletable_def delete_files_def original_present_def
          thumbnail_present_def existsSync_def)
  qed
  from all show "fst (delete_files cfg file w) = Json True"
    and "\<not> original_present cfg (snd (delete_files cfg file w)) file"
    and "\<not> thumbnail_present cfg (snd (delete_files cfg file w)) file"
    and "deletable cfg (snd (delete_files cfg file w)) file"
    by blast+
qed

text \<open>Deleting what is not there changes neither store.\<close>

lemma delete_files_absent:
  assumes "deletable cfg w file" and "\<not> original_present cfg w file"
    and "\<not> thumbnail_present cfg w file"
  shows "bucket (snd (delete_files cfg file w)) = bucket w"
    and "fs (snd (delete_files cfg file w)) = fs w"
proof -
  have "bucket (snd (delete_files cfg file w)) = bucket w \<and>
        fs (snd (delete_files cfg file w)) = fs w"
  proof (cases "STORAGE cfg = ''s3''")
    case True
    with assms have "''images/'' @ file \<notin> fst ` set (bucket w)"
      "''images/'' @ ext_thumbName file \<notin> fst ` set (bucket w)"
      by (simp_all add: original_present_def thumbnail_present_def map_of_eq_None_iff)
    with True assms(1) show ?thesis
      by (simp add: deletable_def delete_files_def delete_s3_unfold)
  next
    case False
    with assms(2,3) have "fs_lookup (fs w) (path_join (UPLOAD_DIR cfg) file) = None"
      "fs_lookup (fs w) (path_join (THUMB_DIR cfg) (ext_thumbName file)) = None"
      by (simp_all add: original_present_def thumbnail_present_def existsSync_def)
    with False show ?thesis by (simp add: delete_files_def delete_local_absent)
  qed
  then show "bucket (snd (delete_files cfg file w)) = bucket w"
    and "fs (snd (delete_files cfg file w)) = fs w" by blast+
qed

lemma delete_files_not_forbidden: "fst (delete_files cfg file w) \<noteq> Fail 403 ''forbidden''"
  by (simp add: delete_files_def delete_s3_unfold delete_local_def Let_def
      split: prod.splits outcome.splits)

lemma demo_ext_thumbName:
  "ext_thumbName ''1700000000000-k3x9.gif'' = ''1700000000000-k3x9_thumb.gif''"
  by code_simp

lemma demo_storage: "STORAGE demo_local = ''local''" "STORAGE demo_s3 = ''s3''"
  by (simp_all add: demo_s3_def demo_local_def)

lemma demo_deletable_local: "deletable demo_local orphan_local ''1700000000000-k3x9.gif''"
  by (simp add: deletable_def demo_dirs demo_paths demo_ext_thumbName orphan_local_def
      world0_def fs_lookup_def demo_storage)

lemma demo_deletable_s3:
  assumes "STORAGE cfg = ''s3''"
  shows "deletable cfg after_upload_s3 f"
  using assms by (simp add: deletable_def after_upload_s3_def world0_def)

section \<open>Delete\<close>

text \<open>
  C7. A Delete that is not forbidden, on a backend that does not fail the two delete
  calls (and, locally, where neither path is a directory), answers \<open>{ok: true}\<close>
  whether or not the original and the thumbnail were there, and leaves neither of
  them; the same Delete repeated on the result answers \<open>{ok: true}\<close> again and
  changes neither store.
\<close>

theorem delete_idempotent:
  assumes "\<not> forbidden cfg req" and "deletable cfg w (param_file req)"
  shows "fst (delete_handler cfg req w) = Json True \<and>
         \<not> original_present cfg (snd (delete_handler cfg req w)) (param_file req) \<and>
         \<not> thumbnail_present cfg (snd (delete_handler cfg req w)) (param_file req) \<and>
         fst (delete_handler cfg req (snd (delete_handler cfg req w))) = Json True \<and>
         bucket (snd (delete_handler cfg req (snd (delete_handler cfg req w))))
           = bucket (snd (delete_handler cfg req w)) \<and>
         fs (snd (delete_handler cfg req (snd (delete_handler cfg req w))))
           = fs (snd (delete_handler cfg req w))"
proof -
  have dh: "\<And>v. delete_handler cfg req v = delete_files cfg (param_file req) v"
    using assms(1) by (simp add: delete_handler_def)
  note a = delete_files_ok [OF assms(2)]
  note b = delete_files_ok [OF a(4)]
  note c = delete_files_absent [OF a(4) a(2) a(3)]
  from a b c show ?thesis unfolding dh by blast
qed

theorem delete_idempotent_witness:
  "\<not> forbidden demo_local del_req \<and>
   deletable demo_local orphan_local (param_file del_req) \<and>
   original_present demo_local orphan_local (param_file del_req) \<and>
   \<not> thumbnail_present demo_local orphan_local (param_file del_req) \<and>
   fst (delete_handler demo_local del_req orphan_local) = Json True \<and>
   \<not> original_present demo_local (snd (delete_handler demo_local del_req orphan_local))
       (param_file del_req) \<and>
   fst (delete_handler demo_local del_req (snd (delete_handler demo_local del_req orphan_local)))
     = Json True \<and>
   fs (snd (delete_handler demo_local del_req
              (snd (delete_handler demo_local del_req orphan_local))))
     = fs (snd (delete_handler demo_local del_req orphan_local))"
proof -
  have a: "\<not> forbidden demo_local del_req" by (simp add: forbidden_def demo_local_def)
  have p: "param_file del_req = ''1700000000000-k3x9.gif''" by (simp add: del_req_def)
  have b: "deletable demo_local orphan_local (param_file del_req)"
    unfolding p by (rule demo_deletable_local)
  have c: "original_present demo_local orphan_local (param_file del_req)"
    unfolding p
    by (simp add: original_present_def demo_storage demo_dirs
        demo_paths existsSync_def fs_lookup_def orphan_local_def world0_def)
  have d: "\<not> thumbnail_present demo_local orphan_local (param_file del_req)"
    unfolding p
    by (simp add: thumbnail_present_def demo_storage demo_dirs
        demo_paths demo_ext_thumbName existsSync_def fs_lookup_def orphan_local_def world0_def)
  from delete_idempotent [OF a b] a b c d show ?thesis by blast
qed

text \<open>
  C8. With an admin secret configured, a Delete whose \<open>key\<close> is not exactly the
  secret is answered 403 and the world is unchanged: nothing is deleted and no backend
  call is made. With the exact secret the two delete calls are made; on a backend that
  does not fail them the answer is \<open>{ok: true}\<close> and neither the original nor the
  thumbnail is left.
\<close>

theorem delete_requires_secret:
  assumes "ADMIN_KEY cfg \<noteq> []"
  shows "(query_key req \<noteq> QString (ADMIN_KEY cfg) \<longrightarrow>
            delete_handler cfg req w = (Fail 403 ''forbidden'', w)) \<and>
         (query_key req = QString (ADMIN_KEY cfg) \<longrightarrow>
            delete_handler cfg req w = delete_files cfg (param_file req) w) \<and>
         (query_key req = QString (ADMIN_KEY cfg) \<and> deletable cfg w (param_file req) \<longrightarrow>
            fst (delete_handler cfg req w) = Json True \<and>
            \<not> original_present cfg (snd (delete_handler cfg req w)) (param_file req) \<and>
            \<not> thumbnail_present cfg (snd (delete_handler cfg req w)) (param_file req))"
proof -
  have no: "query_key req \<noteq> QString (ADMIN_KEY cfg) \<Longrightarrow> forbidden cfg req"
    using assms by (cases "query_key req") (auto simp add: forbidden_def supplied_key_def)
  have yes: "query_key req = QString (ADMIN_KEY cfg) \<Longrightarrow> \<not> forbidden cfg req"
    by (simp add: forbidden_def supplied_key_def)
  have r1: "query_key req \<noteq> QString (ADMIN_KEY cfg) \<longrightarrow>
            delete_handler cfg req w = (Fail 403 ''forbidden'', w)"
    using no by (simp add: delete_handler_def)
  have r2: "query_key req = QString (ADMIN_KEY cfg) \<longrightarrow>
            delete_handler cfg req w = delete_files cfg (param_file req) w"
    using yes by (simp add: delete_handler_def)
  have r3: "query_key req = QString (ADMIN_KEY cfg) \<and> deletable cfg w (param_file req) \<longrightarrow>
            fst (delete_handler cfg req w) = Json True \<and>
            \<not> original_present cfg (snd (delete_handler cfg req w)) (param_file req) \<and>
            \<not> thumbnail_present cfg (snd (delete_handler cfg req w)) (param_file req)"
    using r2 delete_files_ok [of cfg w "param_file req"] by simp
  from r1 r2 r3 show ?thesis by blast
qed

theorem delete_requires_secret_witness:
  "ADMIN_KEY demo_s3_abc = ''abc'' \<and>
   query_key del_req = QUndefined \<and>
   delete_handler demo_s3_abc del_req after_upload_s3 = (Fail 403 ''forbidden'', after_upload_s3) \<and>
   deletable demo_s3_abc after_upload_s3 (param_file del_req) \<and>
   original_present demo_s3_abc after_upload_s3 (param_file del_req) \<and>
   thumbnail_present demo_s3_abc after_upload_s3 (param_file del_req) \<and>
   fst (delete_handler demo_s3_abc (del_req\<lparr>query_key := QString ''abc''\<rparr>) after_upload_s3)
     = Json True \<and>
   \<not> original_present demo_s3_abc
       (snd (delete_handler demo_s3_abc (del_req\<lparr>query_key := QString ''abc''\<rparr>) after_upload_s3))
       (param_file del_req) \<and>
   \<not> thumbnail_present demo_s3_abc
       (snd (delete_handler demo_s3_abc (del_req\<lparr>query_key := QString ''abc''\<rparr>) after_upload_s3))
       (param_file del_req)"
proof -
  have k: "ADMIN_KEY demo_s3_abc = ''abc''" "ADMIN_KEY demo_s3_abc \<noteq> []"
    and st: "STORAGE demo_s3_abc = ''s3''"
    by (simp_all add: demo_s3_abc_def demo_s3_def)
  have q: "query_key del_req = QUndefined" "query_key del_req \<noteq> QString (ADMIN_KEY demo_s3_abc)"
    by (simp_all add: del_req_def demo_req_def)
  have q': "query_key (del_req\<lparr>query_key := QString ''abc''\<rparr>) = QString (ADMIN_KEY demo_s3_abc)"
    and p': "param_file (del_req\<lparr>query_key := QString ''abc''\<rparr>) = param_file del_req"
    by (simp_all add: k)
  have p: "param_file del_req = ''1700000000000-k3x9.gif''" by (simp add: del_req_def)
  have d: "deletable demo_s3_abc after_upload_s3 (param_file del_req)"
    by (rule demo_deletable_s3 [OF st])
  have o: "original_present demo_s3_abc after_upload_s3 (param_file del_req)"
    and t: "thumbnail_present demo_s3_abc after_upload_s3 (param_file del_req)"
    unfolding p
    by (simp_all add: original_present_def thumbnail_present_def st demo_ext_thumbName
        after_upload_s3_def)
  from delete_requires_secret [OF k(2), of del_req after_upload_s3] q
  have f: "delete_handler demo_s3_abc del_req after_upload_s3
             = (Fail 403 ''forbidden'', after_upload_s3)"
    by blast
  from delete_requires_secret
         [OF k(2), of "del_req\<lparr>query_key := QString ''abc''\<rparr>" after_upload_s3] q' d
  have g: "fst (delete_handler demo_s3_abc (del_req\<lparr>query_key := QString ''abc''\<rparr>)
                  after_upload_s3) = Json True"
    "\<not> original_present demo_s3_abc
       (snd (delete_handler demo_s3_abc (del_req\<lparr>query_key := QString ''abc''\<rparr>) after_upload_s3))
       (param_file del_req)"
    "\<not> thumbnail_present demo_s3_abc
       (snd (delete_handler demo_s3_abc (del_req\<lparr>query_key := QString ''abc''\<rparr>) after_upload_s3))
       (param_file del_req)"
    unfolding p' by blast+
  from k(1) q(1) f d o t g show ?thesis by blast
qed

text \<open>
  C10. With no admin secret configured (\<open>ADMIN_KEY\<close> empty) Delete is never
  answered 403, whatever \<open>key\<close> the request carries or omits: it goes on to the two
  delete calls, and on a backend that does not fail them answers \<open>{ok: true}\<close> with
  neither the original nor the thumbnail left.
\<close>

theorem delete_unauthenticated_by_default:
  assumes "ADMIN_KEY cfg = []"
  shows "fst (delete_handler cfg req w) \<noteq> Fail 403 ''forbidden'' \<and>
         delete_handler cfg req w = delete_files cfg (param_file req) w \<and>
         (deletable cfg w (param_file req) \<longrightarrow>
            fst (delete_handler cfg req w) = Json True \<and>
            \<not> original_present cfg (snd (delete_handler cfg req w)) (param_file req) \<and>
            \<not> thumbnail_present cfg (snd (delete_handler cfg req w)) (param_file req))"
proof -
  have dh: "delete_handler cfg req w = delete_files cfg (param_file req) w"
    using assms by (simp add: delete_handler_def forbidden_def)
  show ?thesis
    unfolding dh using delete_files_not_forbidden delete_files_ok [of cfg w "param_file req"]
    by simp
qed

theorem delete_unauthenticated_by_default_witness:
  "ADMIN_KEY demo_s3 = [] \<and>
   query_key (del_req\<lparr>query_key := QString ''guess''\<rparr>) = QString ''guess'' \<and>
   deletable demo_s3 after_upload_s3 (param_file (del_req\<lparr>query_key := QString ''guess''\<rparr>)) \<and>
   fst (delete_handler demo_s3 del_req after_upload_s3) = Json True \<and>
   fst (delete_handler demo_s3 (del_req\<lparr>query_key := QString ''guess''\<rparr>) after_upload_s3)
     = Json True \<and>
   \<not> original_present demo_s3
       (snd (delete_handler demo_s3 (del_req\<lparr>query_key := QString ''guess''\<rparr>) after_upload_s3))
       (param_file (del_req\<lparr>query_key := QString ''guess''\<rparr>))"
proof -
  have k: "ADMIN_KEY demo_s3 = []" and st: "STORAGE demo_s3 = ''s3''"
    by (simp_all add: demo_s3_def demo_local_def)
  have q: "query_key (del_req\<lparr>query_key := QString ''guess''\<rparr>) = QString ''guess''" by simp
  note d = demo_deletable_s3 [OF st]
  from delete_unauthenticated_by_default [OF k, of del_req after_upload_s3]
    delete_unauthenticated_by_default
      [OF k, of "del_req\<lparr>query_key := QString ''guess''\<rparr>" after_upload_s3]
    d k q
  show ?thesis by blast
qed

lemma string_le_simps:
  "([] :: string) \<le> ys" "\<not> (x # xs) \<le> ([] :: string)"
  "(x # xs) \<le> (y # ys) \<longleftrightarrow> (of_char x :: nat) < of_char y \<or> x = y \<and> xs \<le> ys"
  by (auto simp add: less_char_def)

lemma demo_s3_url: "s3_url demo_s3 = ''https://pics.s3.eu-west-1.amazonaws.com/''"
  by (simp add: s3_url_def demo_s3_def demo_local_def)

lemma demo_basename:
  "basename ''images/1700000000000-k3x9.gif'' = ''1700000000000-k3x9.gif''"
  "basename ''images/1700000000000-k3x9_thumb.gif'' = ''1700000000000-k3x9_thumb.gif''"
  "basename ''images/1700000000500-ab12.gif'' = ''1700000000500-ab12.gif''"
  "basename ''images/a.b.png'' = ''a.b.png''"
  by code_simp+

lemma demo_s3_list_thumbName:
  "s3_list_thumbName ''1700000000000-k3x9.gif'' = ''1700000000000-k3x9_thumb.gif''"
  "s3_list_thumbName ''1700000000000-k3x9_thumb.gif'' = ''1700000000000-k3x9_thumb_thumb.gif''"
  "s3_list_thumbName ''1700000000500-ab12.gif'' = ''1700000000500-ab12_thumb.gif''"
  "s3_list_thumbName ''a.b.png'' = ''a_thumb.b.png''"
  by code_simp+

lemma demo_encode:
  "encodeURIComponent ''images/1700000000000-k3x9.gif'' = ''images%2F1700000000000-k3x9.gif''"
  "encodeURIComponent ''images/1700000000000-k3x9_thumb.gif''
     = ''images%2F1700000000000-k3x9_thumb.gif''"
  "encodeURIComponent ''images/1700000000500-ab12.gif'' = ''images%2F1700000000500-ab12.gif''"
  "encodeURIComponent ''images/a.b.png'' = ''images%2Fa.b.png''"
  "encodeURIComponent ''1700000000000-k3x9_thumb.gif'' = ''1700000000000-k3x9_thumb.gif''"
  "encodeURIComponent ''1700000000000-k3x9_thumb_thumb.gif''
     = ''1700000000000-k3x9_thumb_thumb.gif''"
  "encodeURIComponent ''1700000000500-ab12_thumb.gif'' = ''1700000000500-ab12_thumb.gif''"
  "encodeURIComponent ''a_thumb.b.png'' = ''a_thumb.b.png''"
  by code_simp+

lemma dotted_ext_thumbName:
  "ext_thumbName ''a.b.png'' = ''a.b_thumb.png''"
  "ext_thumbName ''a.png.png'' = ''a_thumb.png.png''"
  by code_simp+

lemmas list_s3_eval =
  list_handler_def demo_storage list_s3_def listObjectsV2_def world0_def logged_def
  string_le_simps endsWith_def s3_item_def Let_def demo_s3_url demo_basename
  demo_s3_list_thumbName demo_encode

section \<open>List\<close>

text \<open>
  C1 asks that every path pair \<open>a.b.png\<close> with \<open>a.b_thumb.png\<close>. Delete does, for
  the object \<open>images/a.b.png\<close> of an S3 bucket; the S3 branch of List, on the same
  bucket, gives the thumbnail URL of \<open>a_thumb.b.png\<close>, because it replaces the first
  dot. Delete and the local List replace the first occurrence of the extension, so
  they too miss the last segment of \<open>a.png.png\<close>.
\<close>

theorem thumbnail_name_first_dot_in_s3_list:
  "fst (list_handler demo_s3 demo_req dotted_bucket) =
     Json [\<lparr>l_file = ''a.b.png'',
            l_url = ''https://pics.s3.eu-west-1.amazonaws.com/images%2Fa.b.png'',
            l_thumbnail = ''https://pics.s3.eu-west-1.amazonaws.com/images/a_thumb.b.png'',
            l_size = 3, l_date = 1700000000002\<rparr>] \<and>
   calls (snd (delete_handler demo_s3 (del_req\<lparr>param_file := ''a.b.png''\<rparr>) dotted_bucket)) =
     [DeleteObject ''images/a.b.png'', DeleteObject ''images/a.b_thumb.png''] \<and>
   s3_list_thumbName ''a.b.png'' = ''a_thumb.b.png'' \<and>
   ext_thumbName ''a.b.png'' = ''a.b_thumb.png'' \<and>
   ext_thumbName ''a.png.png'' = ''a_thumb.png.png''"
proof -
  have l: "fst (list_handler demo_s3 demo_req dotted_bucket) =
     Json [\<lparr>l_file = ''a.b.png'',
            l_url = ''https://pics.s3.eu-west-1.amazonaws.com/images%2Fa.b.png'',
            l_thumbnail = ''https://pics.s3.eu-west-1.amazonaws.com/images/a_thumb.b.png'',
            l_size = 3, l_date = 1700000000002\<rparr>]"
    by (simp add: list_s3_eval dotted_bucket_def)
  have d: "calls (snd (delete_handler demo_s3 (del_req\<lparr>param_file := ''a.b.png''\<rparr>)
                         dotted_bucket)) =
     [DeleteObject ''images/a.b.png'', DeleteObject ''images/a.b_thumb.png'']"
    by (simp add: delete_handler_def forbidden_def delete_files_def demo_storage
        delete_s3_unfold dotted_ext_thumbName dotted_bucket_def world0_def
        demo_s3_def demo_local_def)
  from l d show ?thesis by (simp add: demo_s3_list_thumbName dotted_ext_thumbName)
qed

text \<open>
  C2 asks that List return originals only. On S3, after the one example upload into
  an empty bucket, List returns two entries: the thumbnail object is listed as an
  asset of its own, with the thumbnail URL of a \<open>_thumb_thumb\<close> object that does not
  exist.
\<close>

theorem s3_list_returns_thumbnails:
  "post_upload demo_s3 demo_libs demo_env demo_req world0 = (Json demo_meta, after_upload_s3) \<and>
   fst (list_handler demo_s3 demo_req after_upload_s3) =
     Json [\<lparr>l_file = ''1700000000000-k3x9_thumb.gif'',
            l_url = ''https://pics.s3.eu-west-1.amazonaws.com/images%2F1700000000000-k3x9_thumb.gif'',
            l_thumbnail =
              ''https://pics.s3.eu-west-1.amazonaws.com/images/1700000000000-k3x9_thumb_thumb.gif'',
            l_size = 2, l_date = 1700000000002\<rparr>,
           \<lparr>l_file = ''1700000000000-k3x9.gif'',
            l_url = ''https://pics.s3.eu-west-1.amazonaws.com/images%2F1700000000000-k3x9.gif'',
            l_thumbnail =
              ''https://pics.s3.eu-west-1.amazonaws.com/images/1700000000000-k3x9_thumb.gif'',
            l_size = 8, l_date = 1700000000002\<rparr>] \<and>
   map_of (bucket after_upload_s3) ''images/1700000000000-k3x9_thumb_thumb.gif'' = None"
proof -
  have "fst (list_handler demo_s3 demo_req after_upload_s3) =
     Json [\<lparr>l_file = ''1700000000000-k3x9_thumb.gif'',
            l_url = ''https://pics.s3.eu-west-1.amazonaws.com/images%2F1700000000000-k3x9_thumb.gif'',
            l_thumbnail =
              ''https://pics.s3.eu-west-1.amazonaws.com/images/1700000000000-k3x9_thumb_thumb.gif'',
            l_size = 2, l_date = 1700000000002\<rparr>,
           \<lparr>l_file = ''1700000000000-k3x9.gif'',
            l_url = ''https://pics.s3.eu-west-1.amazonaws.com/images%2F1700000000000-k3x9.gif'',
            l_thumbnail =
              ''https://pics.s3.eu-west-1.amazonaws.com/images/1700000000000-k3x9_thumb.gif'',
            l_size = 8, l_date = 1700000000002\<rparr>]"
    by (simp add: list_s3_eval after_upload_s3_def gif_file_def)
  moreover have "map_of (bucket after_upload_s3) ''images/1700000000000-k3x9_thumb_thumb.gif''
                   = None"
    by (simp add: after_upload_s3_def)
  ultimately show ?thesis using demo_upload_s3' by simp
qed

text \<open>
  C9 asks for entries in descending order of time under both backends. The S3 branch
  reverses the key order of the listing and never looks at \<open>LastModified\<close>: of two
  uploads, the one with the later name is listed first although it was stored first.
\<close>

theorem s3_list_not_by_time:
  "fst (list_handler demo_s3 demo_req overlap_bucket) =
     Json [\<lparr>l_file = ''1700000000500-ab12.gif'',
            l_url = ''https://pics.s3.eu-west-1.amazonaws.com/images%2F1700000000500-ab12.gif'',
            l_thumbnail =
              ''https://pics.s3.eu-west-1.amazonaws.com/images/1700000000500-ab12_thumb.gif'',
            l_size = 1, l_date = 1700000001000\<rparr>,
           \<lparr>l_file = ''1700000000000-k3x9.gif'',
            l_url = ''https://pics.s3.eu-west-1.amazonaws.com/images%2F1700000000000-k3x9.gif'',
            l_thumbnail =
              ''https://pics.s3.eu-west-1.amazonaws.com/images/1700000000000-k3x9_thumb.gif'',
            l_size = 2, l_date = 1700000005000\<rparr>] \<and>
   (1700000001000 :: nat) < 1700000005000"
  by (simp add: list_s3_eval overlap_bucket_def)

text \<open>The local branch does sort by time: its entries are in descending order of
  \<open>mtime\<close>.\<close>

lemma list_local_sorted:
  assumes "fst (list_local cfg req w) = Json items"
  shows "sorted (map (\<lambda>i. - int (l_date i)) items)"
  using assms
  by (auto simp add: list_local_def Let_def split: prod.splits outcome.splits if_splits)

text \<open>The local branch lists neither the thumbnail directory nor any other
  directory, and pairs each file with the name Delete pairs it with.\<close>

lemma list_local_originals_only:
  assumes "fst (list_local cfg req w) = Json items" and "i \<in> set items"
  shows "l_file i \<noteq> ''thumbs''"
    and "fs_lookup (fs w) (path_join (UPLOAD_DIR cfg) (l_file i)) \<noteq> Some Dir"
    and "l_thumbnail i = getBaseUrl cfg req @ ''/uploads/thumbs/'' @ ext_thumbName (l_file i)"
proof -
  obtain r w1 where rd: "readdir (UPLOAD_DIR cfg) w = (r, w1)"
    by (cases "readdir (UPLOAD_DIR cfg) w")
  have fsw: "fs w1 = fs w"
    using rd by (auto simp add: readdir_def logged_def Let_def split: if_splits)
  from assms(1) rd obtain files where r: "r = Resolved files"
    by (cases r) (auto simp add: list_local_def)
  let ?named = "filter (\<lambda>f. f \<noteq> ''thumbs'') files"
  let ?images = "filter (\<lambda>f. fs_lookup (fs w1) (path_join (UPLOAD_DIR cfg) f) \<noteq> Some Dir) ?named"
  from assms(1) rd r have "items = sort_key (\<lambda>i. - int (l_date i)) (map (local_item cfg req w1) ?images)"
    by (auto simp add: list_local_def Let_def split: if_splits)
  with assms(2) obtain f where f: "f \<in> set ?images" and i: "i = local_item cfg req w1 f"
    by auto
  have lf: "l_file i = f" by (simp add: i local_item_def Let_def)
  from f lf show "l_file i \<noteq> ''thumbs''" by simp
  from f lf fsw show "fs_lookup (fs w) (path_join (UPLOAD_DIR cfg) (l_file i)) \<noteq> Some Dir"
    by simp
  show "l_thumbnail i = getBaseUrl cfg req @ ''/uploads/thumbs/'' @ ext_thumbName (l_file i)"
    by (simp add: i local_item_def Let_def)
qed

end
